theory Spec2Isabelle
  imports Main
begin

section \<open>Text\<close>

text \<open>
  A Python \<open>str\<close> is a sequence of code points; it is modelled as a list of natural
  numbers, and \<open>py\<close> turns a literal into that form.  The character classes below cover
  the Latin-1 range as Python does for white space; case conversion and the word class
  are the ASCII ones, so code points above 127 are letters of no case and no word
  characters here.
\<close>

type_synonym pstr = "nat list"

definition py :: "string \<Rightarrow> pstr" where
  "py s = map of_char s"

definition is_space :: "nat \<Rightarrow> bool" where
  "is_space c = ((9 \<le> c \<and> c \<le> 13) \<or> (28 \<le> c \<and> c \<le> 32) \<or> c = 133 \<or> c = 160)"

definition is_upper_c :: "nat \<Rightarrow> bool" where
  "is_upper_c c = (65 \<le> c \<and> c \<le> 90)"

definition is_lower_c :: "nat \<Rightarrow> bool" where
  "is_lower_c c = (97 \<le> c \<and> c \<le> 122)"

definition is_digit :: "nat \<Rightarrow> bool" where
  "is_digit c = (48 \<le> c \<and> c \<le> 57)"

definition is_word :: "nat \<Rightarrow> bool" where
  "is_word c = (is_lower_c c \<or> is_upper_c c \<or> is_digit c \<or> c = 95)"

definition upper_c :: "nat \<Rightarrow> nat" where
  "upper_c c = (if is_lower_c c then c - 32 else c)"

definition lower_c :: "nat \<Rightarrow> nat" where
  "lower_c c = (if is_upper_c c then c + 32 else c)"

definition upper :: "pstr \<Rightarrow> pstr" where
  "upper s = map upper_c s"

definition lower :: "pstr \<Rightarrow> pstr" where
  "lower s = map lower_c s"

text \<open>\<open>len\<close> is \<open>length\<close>, counted in a way that evaluates on numerals.\<close>

fun len :: "'a list \<Rightarrow> nat" where
  "len [] = 0"
| "len (x # xs) = len xs + 1"

fun lstrip :: "pstr \<Rightarrow> pstr" where
  "lstrip [] = []"
| "lstrip (c # s) = (if is_space c then lstrip s else c # s)"

definition rstrip :: "pstr \<Rightarrow> pstr" where
  "rstrip s = rev (lstrip (rev s))"

definition strip :: "pstr \<Rightarrow> pstr" where
  "strip s = rstrip (lstrip s)"

fun startswith :: "pstr \<Rightarrow> pstr \<Rightarrow> bool" where
  "startswith s [] = True"
| "startswith [] (a # p) = False"
| "startswith (c # s) (a # p) = (if c = a then startswith s p else False)"

definition endswith :: "pstr \<Rightarrow> pstr \<Rightarrow> bool" where
  "endswith s p = startswith (rev s) (rev p)"

text \<open>\<open>contains s p\<close> is Python's \<open>p in s\<close>.\<close>

fun contains_str :: "pstr \<Rightarrow> pstr \<Rightarrow> bool" where
  "contains_str [] p = (p = [])"
| "contains_str (c # s) p = (if startswith (c # s) p then True else contains_str s p)"

text \<open>\<open>any\<close> over a list of tests, left to right and stopping at the first hit.\<close>

fun any_of :: "('a \<Rightarrow> bool) \<Rightarrow> 'a list \<Rightarrow> bool" where
  "any_of f [] = False"
| "any_of f (x # xs) = (if f x then True else any_of f xs)"

text \<open>\<open>str.isupper\<close>: no lower-case letter and at least one upper-case letter.\<close>

definition isupper :: "pstr \<Rightarrow> bool" where
  "isupper s = (\<not> any_of is_lower_c s \<and> any_of is_upper_c s)"

text \<open>\<open>str.isdigit\<close>: non-empty and digits only.\<close>

definition isdigit :: "pstr \<Rightarrow> bool" where
  "isdigit s = (s \<noteq> [] \<and> \<not> any_of (\<lambda>c. \<not> is_digit c) s)"

definition spaces :: "nat \<Rightarrow> pstr" where
  "spaces n = replicate n 32"

section \<open>Regular expressions\<close>

text \<open>
  The patterns of the program are values of \<open>rx\<close>, and \<open>rxm\<close> is a backtracking
  matcher in continuation-passing style: it tries alternatives left to right and
  repetitions greedily, as Python's \<open>re\<close> does, so the first success is the match
  \<open>re\<close> reports.  A matcher state is the character before the position (\<open>None\<close> at
  the start of the text), the rest of the text, the position and the groups captured
  so far.  \<open>Rep m e r\<close> is \<open>r{m,m+e}\<close>.
\<close>

datatype rx =
    Lit nat
  | Cls bool "(nat \<times> nat) list"
  | Dot
  | Eps
  | Seq rx rx
  | Alt rx rx
  | Star rx
  | Rep nat nat rx
  | Bol
  | Eol
  | Wb
  | Grp nat rx
  | Bref nat
  | NLook rx

type_synonym caps = "(nat \<times> pstr) list"
type_synonym mres = "(pstr \<times> nat \<times> caps) option"
type_synonym cont = "nat option \<Rightarrow> pstr \<Rightarrow> nat \<Rightarrow> caps \<Rightarrow> mres"
type_synonym matcher = "cont \<Rightarrow> cont"

fun in_ranges :: "(nat \<times> nat) list \<Rightarrow> nat \<Rightarrow> bool" where
  "in_ranges [] c = False"
| "in_ranges ((lo, hi) # rs) c = (if lo \<le> c \<and> c \<le> hi then True else in_ranges rs c)"

text \<open>With IGNORECASE a class accepts a character whose other case it contains.\<close>

definition cls_ok :: "bool \<Rightarrow> bool \<Rightarrow> (nat \<times> nat) list \<Rightarrow> nat \<Rightarrow> bool" where
  "cls_ok ic neg rs c =
     ((if in_ranges rs c then True
       else if ic then (if in_ranges rs (lower_c c) then True else in_ranges rs (upper_c c))
       else False) \<noteq> neg)"

definition lit_ok :: "bool \<Rightarrow> nat \<Rightarrow> nat \<Rightarrow> bool" where
  "lit_ok ic a c = (if a = c then True else if ic then lower_c a = lower_c c else False)"

fun step1 :: "(nat \<Rightarrow> bool) \<Rightarrow> matcher" where
  "step1 ok k p [] i cs = None"
| "step1 ok k p (c # s) i cs = (if ok c then k (Some c) s (i + 1) cs else None)"

text \<open>
  A star iterates while the body consumes text.  The first argument bounds the number
  of iterations by the length of the text that is left, which iterations that each
  consume a character cannot exceed.
\<close>

fun star_it :: "pstr \<Rightarrow> matcher \<Rightarrow> matcher" where
  "star_it [] f k p s i cs = k p s i cs"
| "star_it (u # fuel) f k p s i cs =
     (case f (\<lambda>p' s' i' cs'. if i < i' then star_it fuel f k p' s' i' cs' else None) p s i cs of
        Some r \<Rightarrow> Some r
      | None \<Rightarrow> k p s i cs)"

fun rep_it :: "nat \<Rightarrow> nat \<Rightarrow> matcher \<Rightarrow> matcher" where
  "rep_it 0 0 f k p s i cs = k p s i cs"
| "rep_it 0 (Suc e) f k p s i cs =
     (case f (rep_it 0 e f k) p s i cs of Some r \<Rightarrow> Some r | None \<Rightarrow> k p s i cs)"
| "rep_it (Suc m) e f k p s i cs = f (rep_it m e f k) p s i cs"

text \<open>\<open>chop i j s\<close> is the text between positions \<open>i\<close> and \<open>j\<close>, \<open>s\<close> starting at \<open>i\<close>.\<close>

fun chop :: "nat \<Rightarrow> nat \<Rightarrow> pstr \<Rightarrow> pstr" where
  "chop i j [] = []"
| "chop i j (c # s) = (if i < j then c # chop (i + 1) j s else [])"

fun bref_it :: "bool \<Rightarrow> pstr \<Rightarrow> matcher" where
  "bref_it ic [] k p s i cs = k p s i cs"
| "bref_it ic (w # ws) k p s i cs = step1 (lit_ok ic w) (bref_it ic ws k) p s i cs"

text \<open>\<open>^\<close>, \<open>$\<close> and \<open>\b\<close>; the flag is MULTILINE.\<close>

definition at_bol :: "bool \<Rightarrow> nat option \<Rightarrow> bool" where
  "at_bol ml p = (case p of None \<Rightarrow> True | Some c \<Rightarrow> ml \<and> c = 10)"

definition at_eol :: "bool \<Rightarrow> pstr \<Rightarrow> bool" where
  "at_eol ml s = (case s of [] \<Rightarrow> True | c # t \<Rightarrow> c = 10 \<and> (ml \<or> t = []))"

definition at_wb :: "nat option \<Rightarrow> pstr \<Rightarrow> bool" where
  "at_wb p s = ((case p of None \<Rightarrow> False | Some c \<Rightarrow> is_word c)
                \<noteq> (case s of [] \<Rightarrow> False | c # t \<Rightarrow> is_word c))"

definition accept :: cont where
  "accept p s i cs = Some (s, i, cs)"

primrec rxm :: "bool \<Rightarrow> bool \<Rightarrow> rx \<Rightarrow> matcher" where
  "rxm ic ml (Lit c) k = step1 (lit_ok ic c) k"
| "rxm ic ml (Cls neg rs) k = step1 (cls_ok ic neg rs) k"
| "rxm ic ml Dot k = step1 (\<lambda>c. c \<noteq> 10) k"
| "rxm ic ml Eps k = k"
| "rxm ic ml (Seq r1 r2) k = rxm ic ml r1 (rxm ic ml r2 k)"
| "rxm ic ml (Alt r1 r2) k = (\<lambda>p s i cs.
     case rxm ic ml r1 k p s i cs of Some r \<Rightarrow> Some r | None \<Rightarrow> rxm ic ml r2 k p s i cs)"
| "rxm ic ml (Star r) k = (\<lambda>p s i cs. star_it s (rxm ic ml r) k p s i cs)"
| "rxm ic ml (Rep m e r) k = rep_it m e (rxm ic ml r) k"
| "rxm ic ml Bol k = (\<lambda>p s i cs. if at_bol ml p then k p s i cs else None)"
| "rxm ic ml Eol k = (\<lambda>p s i cs. if at_eol ml s then k p s i cs else None)"
| "rxm ic ml Wb k = (\<lambda>p s i cs. if at_wb p s then k p s i cs else None)"
| "rxm ic ml (Grp n r) k = (\<lambda>p s i cs.
     rxm ic ml r (\<lambda>p' s' i' cs'. k p' s' i' ((n, chop i i' s) # cs')) p s i cs)"
| "rxm ic ml (Bref n) k = (\<lambda>p s i cs.
     case map_of cs n of None \<Rightarrow> None | Some w \<Rightarrow> bref_it ic w k p s i cs)"
| "rxm ic ml (NLook r) k = (\<lambda>p s i cs.
     case rxm ic ml r accept p s i cs of None \<Rightarrow> k p s i cs | Some y \<Rightarrow> None)"

text \<open>\<open>re.match\<close>: a match at the start of the text.\<close>

definition re_match :: "bool \<Rightarrow> rx \<Rightarrow> pstr \<Rightarrow> bool" where
  "re_match ic r s = (rxm ic False r accept None s 0 [] \<noteq> None)"

text \<open>\<open>re.search\<close>: a match at the first position that has one.\<close>

fun search_from :: "bool \<Rightarrow> rx \<Rightarrow> nat option \<Rightarrow> pstr \<Rightarrow> bool" where
  "search_from ic r p [] = (rxm ic False r accept p [] 0 [] \<noteq> None)"
| "search_from ic r p (c # s) =
     (if rxm ic False r accept p (c # s) 0 [] \<noteq> None then True
      else search_from ic r (Some c) s)"

definition re_search :: "bool \<Rightarrow> rx \<Rightarrow> pstr \<Rightarrow> bool" where
  "re_search ic r s = search_from ic r None s"

text \<open>
  \<open>re.sub\<close>: scan from the left; where the pattern matches, the replacement (a function
  of the matched text and the groups) is written and the scan goes on behind the match.
  \<open>t\<close> is the end of the last match and \<open>j\<close> the position of the scan.  No pattern of
  the program matches the empty text, and an empty match is passed over here.
\<close>

fun sub_go :: "bool \<Rightarrow> bool \<Rightarrow> rx \<Rightarrow> (pstr \<Rightarrow> caps \<Rightarrow> pstr) \<Rightarrow> nat \<Rightarrow> nat \<Rightarrow> nat option \<Rightarrow> pstr \<Rightarrow> pstr" where
  "sub_go ic ml r rep t j p [] = []"
| "sub_go ic ml r rep t j p (c # s) =
     (if j < t then sub_go ic ml r rep t (j + 1) (Some c) s
      else case rxm ic ml r accept p (c # s) j [] of
             None \<Rightarrow> c # sub_go ic ml r rep t (j + 1) (Some c) s
           | Some (s', i', cs) \<Rightarrow>
               if j < i' then rep (chop j i' (c # s)) cs @ sub_go ic ml r rep i' (j + 1) (Some c) s
               else c # sub_go ic ml r rep t (j + 1) (Some c) s)"

definition re_sub :: "bool \<Rightarrow> bool \<Rightarrow> rx \<Rightarrow> (pstr \<Rightarrow> caps \<Rightarrow> pstr) \<Rightarrow> pstr \<Rightarrow> pstr" where
  "re_sub ic ml r rep s = sub_go ic ml r rep 0 0 None s"

text \<open>A captured group, empty when the group took no part in the match.\<close>

definition grp :: "caps \<Rightarrow> nat \<Rightarrow> pstr" where
  "grp cs n = (case map_of cs n of None \<Rightarrow> [] | Some w \<Rightarrow> w)"

subsection \<open>Writing patterns\<close>

fun lit :: "string \<Rightarrow> rx" where
  "lit [] = Eps"
| "lit [c] = Lit (of_char c)"
| "lit (c # cs) = Seq (Lit (of_char c)) (lit cs)"

fun seqs :: "rx list \<Rightarrow> rx" where
  "seqs [] = Eps"
| "seqs [r] = r"
| "seqs (r # rs) = Seq r (seqs rs)"

fun alts :: "rx list \<Rightarrow> rx" where
  "alts [] = NLook Eps"
| "alts [r] = r"
| "alts (r # rs) = Alt r (alts rs)"

definition rplus :: "rx \<Rightarrow> rx" where
  "rplus r = Seq r (Star r)"

definition ropt :: "rx \<Rightarrow> rx" where
  "ropt r = Alt r Eps"

text \<open>\<open>r{m,}\<close>\<close>

definition rep_min :: "nat \<Rightarrow> rx \<Rightarrow> rx" where
  "rep_min m r = Seq (Rep m 0 r) (Star r)"

text \<open>An alternation of literal words, and a word with an optional final \<open>s\<close>.\<close>

definition wordsr :: "string list \<Rightarrow> rx" where
  "wordsr ws = alts (map lit ws)"

definition ws :: "string \<Rightarrow> rx" where
  "ws w = Seq (lit w) (ropt (Lit 115))"

definition wss :: "string list \<Rightarrow> rx" where
  "wss l = alts (map ws l)"

text \<open>The ranges of \<open>\s\<close>, \<open>\w\<close>, \<open>\d\<close>, \<open>A-Z\<close>, \<open>a-z\<close>.\<close>

definition r_s :: "(nat \<times> nat) list" where
  "r_s = [(9, 13), (28, 32), (133, 133), (160, 160)]"

definition r_w :: "(nat \<times> nat) list" where
  "r_w = [(97, 122), (65, 90), (48, 57), (95, 95)]"

definition r_d :: "(nat \<times> nat) list" where
  "r_d = [(48, 57)]"

definition r_AZ :: "(nat \<times> nat) list" where
  "r_AZ = [(65, 90)]"

definition r_az :: "(nat \<times> nat) list" where
  "r_az = [(97, 122)]"

definition r_c :: "char \<Rightarrow> (nat \<times> nat) list" where
  "r_c c = [(of_char c, of_char c)]"

definition Sp :: rx where
  "Sp = Cls False r_s"

definition Wc :: rx where
  "Wc = Cls False r_w"

definition Dg :: rx where
  "Dg = Cls False r_d"

definition Up :: rx where
  "Up = Cls False r_AZ"

definition Lo :: rx where
  "Lo = Cls False r_az"

definition Ch :: "char \<Rightarrow> rx" where
  "Ch c = Lit (of_char c)"

section \<open>Pattern library (utils/pattern_enhancer.py)\<close>

text \<open>
  \<^verbatim>\<open>^(INT\.|EXT\.|EST\.|INT\/EXT\.)\<close>, \<^verbatim>\<open>^(INTERIOR|EXTERIOR)\<close>,
  \<^verbatim>\<open>- (DAY|NIGHT|DAWN|DUSK|MORNING|AFTERNOON|EVENING|LATER|CONTINUOUS)\<close>
\<close>

definition scene_patterns :: "rx list" where
  "scene_patterns =
     [Seq Bol (wordsr [''INT.'', ''EXT.'', ''EST.'', ''INT/EXT.'']),
      Seq Bol (wordsr [''INTERIOR'', ''EXTERIOR'']),
      Seq (lit ''- '') (wordsr [''DAY'', ''NIGHT'', ''DAWN'', ''DUSK'', ''MORNING'',
        ''AFTERNOON'', ''EVENING'', ''LATER'', ''CONTINUOUS''])]"

definition character_exclusions :: "pstr list" where
  "character_exclusions = map py
     [''WINDOW'', ''DOOR'', ''TABLE'', ''CHAIR'', ''BAR'', ''HALLWAY'', ''ROOM'',
      ''KITCHEN'', ''BATHROOM'', ''OFFICE'', ''CAR'', ''PHONE'', ''COMPUTER'',
      ''BUILDING'', ''HOUSE'', ''STREET'', ''PARK'', ''STORE'', ''RESTAURANT'',
      ''WORK DESK'', ''CLOTHING RACK'', ''WALL MIRROR'', ''DANCE FLOOR'',
      ''ANGLE ON'', ''CLOSE ON'', ''PHONE CAM POV'', ''END PHONE CAM POV'',
      ''WIDE SHOT'', ''CLOSE UP'', ''MEDIUM SHOT'', ''POV'', ''INSERT'',
      ''FADE IN'', ''FADE OUT'', ''CUT TO'', ''DISSOLVE TO'', ''SMASH CUT'',
      ''THE END'', ''CONTINUED'', ''MORE'', ''BEAT'', ''FADE TO'',
      ''SUPER TITLE'', ''TITLE CARD'', ''SUPER'', ''GRAPHICS'', ''TEXT ON SCREEN'',
      ''BEGIN MONTAGE'', ''END MONTAGE'', ''MONTAGE'', ''SEQUENCE'',
      ''LATER'', ''MOMENTS LATER'', ''CONTINUOUS'', ''SAME TIME'',
      ''MEANWHILE'', ''ELSEWHERE'', ''NEXT DAY'', ''THAT NIGHT'',
      ''PRE-LAP'', ''MUSIC'', ''SOUND'', ''VOICE OVER'', ''NARRATOR'',
      ''CRYPTO ART'', ''LED SCREEN'', ''DIGITAL WALLET'', ''COLD WALLET'',
      ''VIP BOOTHS'', ''BODYGUARDS'', ''CHAMPAGNE'', ''BOMBER JACKET'']"

text \<open>
  \<^verbatim>\<open>^(FADE IN|FADE OUT|CUT TO|DISSOLVE TO|SMASH CUT TO)\<close>,
  \<^verbatim>\<open>^(MATCH CUT|JUMP CUT|CROSS CUT)\<close>
\<close>

definition transition_patterns :: "rx list" where
  "transition_patterns =
     [Seq Bol (wordsr [''FADE IN'', ''FADE OUT'', ''CUT TO'', ''DISSOLVE TO'', ''SMASH CUT TO'']),
      Seq Bol (wordsr [''MATCH CUT'', ''JUMP CUT'', ''CROSS CUT''])]"

definition is_scene_heading :: "pstr \<Rightarrow> bool" where
  "is_scene_heading line0 =
     (let line = upper (strip line0) in
      if \<not> (line = upper line \<and> 10 \<le> len line \<and> len line \<le> 100) then False
      else any_of (\<lambda>pattern. re_search False pattern line) scene_patterns)"

text \<open>
  \<^verbatim>\<open>\((CONT\'?D|MORE|[C]{1,3}[O]{1,3}[N]{1,3}[T]{1,3}[\'\']*D{1,2})\)$\<close>
\<close>

definition contd_suffix :: rx where
  "contd_suffix =
     seqs [Ch CHR ''('',
           alts [seqs [lit ''CONT'', ropt (Lit 39), Ch CHR ''D''],
                 lit ''MORE'',
                 seqs [Rep 1 2 (Ch CHR ''C''), Rep 1 2 (Ch CHR ''O''), Rep 1 2 (Ch CHR ''N''),
                       Rep 1 2 (Ch CHR ''T''), Star (Cls False [(39, 39), (39, 39)]),
                       Rep 1 1 (Ch CHR ''D'')]],
           Ch CHR '')'', Eol]"

text \<open>
  \<^verbatim>\<open>^[A-Z][A-Z\s\-\.#0-9]+\s*\((CONT\'?D|MORE|[C]{1,3}[O]{1,3}[N]{1,3}[T]{1,3}[\'\']*D{1,2})\)$\<close>
\<close>

definition contd_pattern :: rx where
  "contd_pattern =
     seqs [Bol, Up,
           rplus (Cls False (r_AZ @ r_s @ r_c CHR ''-'' @ r_c CHR ''.'' @ r_c CHR ''#'' @ r_d)),
           Star Sp, contd_suffix]"

text \<open>\<^verbatim>\<open>\s*\([^)]+\)\<close>\<close>

definition paren_ext :: rx where
  "paren_ext = seqs [Star Sp, Ch CHR ''('', rplus (Cls True (r_c CHR '')'')), Ch CHR '')'']"

definition patterns_is_character_name :: "pstr \<Rightarrow> bool" where
  "patterns_is_character_name line0 =
     (let line = strip line0 in
      if re_search True contd_pattern line then True
      else if \<not> (line = upper line \<and> 2 \<le> len line \<and> len line \<le> 30) then False
      else
        let clean_line = strip (re_sub False False paren_ext (\<lambda>m cs. []) line) in
        if clean_line \<in> set character_exclusions then False
        else if is_scene_heading line then False
        else if any_of (\<lambda>pattern. re_search False pattern line) transition_patterns then False
        else if len clean_line \<le> 2 \<or> isdigit clean_line then False
        else if \<not> re_search False Up clean_line then False
        else True)"

section \<open>Element classifier (screenplay_parser.py, class ElementClassifier)\<close>

text \<open>
  The classifier's state is \<open>last_element\<close> and \<open>in_dialogue_block\<close>; every method that
  reads or writes it takes the state and \<open>classify_line\<close> returns the new one.  Its
  third field, \<open>dialogue_context\<close>, is never read or written after the constructor.
  An element is the dictionary \<open>classify_line\<close> returns; the parser adds \<open>page\<close>.
\<close>

datatype py_error = IndexError

record cstate =
  last_element :: "string option"
  in_dialogue_block :: bool

record element =
  etype :: string
  etext :: pstr
  indent :: nat
  page :: "int option"

definition init_state :: cstate where
  "init_state = \<lparr>last_element = None, in_dialogue_block = False\<rparr>"

text \<open>\<open>xs[i]\<close> for an index that is not negative.\<close>

fun get :: "'a list \<Rightarrow> nat \<Rightarrow> py_error + 'a" where
  "get [] i = Inl IndexError"
| "get (x # xs) i = (if i = 0 then Inr x else get xs (i - 1))"

text \<open>\<^verbatim>\<open>^[A-Z][A-Z\-\.#0-9]*(\s+[A-Z][A-Z\-\.#0-9]*){0,2}\s*\(\<close>\<close>

definition contd_head :: rx where
  "contd_head =
     (let tl = Star (Cls False (r_AZ @ r_c CHR ''-'' @ r_c CHR ''.'' @ r_c CHR ''#'' @ r_d)) in
      seqs [Bol, Up, tl, Rep 0 2 (seqs [rplus Sp, Up, tl]), Star Sp, Ch CHR ''(''])"

definition pre_pat :: "string \<Rightarrow> rx" where
  "pre_pat w = seqs [Bol, lit w, Star Dot]"

definition pre_pat_colon :: "string \<Rightarrow> rx" where
  "pre_pat_colon w = seqs [Bol, lit w, ropt (Ch CHR '':''), Star Dot]"

text \<open>
  \<^verbatim>\<open>^OVER BLACK.*\<close>, \<^verbatim>\<open>^FADE IN:?.*\<close>, \<^verbatim>\<open>^BLACK SCREEN.*\<close>, \<^verbatim>\<open>^TITLE CARD:?.*\<close>,
  \<^verbatim>\<open>^SUPER:?.*\<close>, \<^verbatim>\<open>^SUPER TITLE:?.*\<close>, \<^verbatim>\<open>^PRELAP:?.*\<close>, \<^verbatim>\<open>^PRE-LAP:?.*\<close>,
  \<^verbatim>\<open>^INSERT.*\<close>, \<^verbatim>\<open>^TEASER.*\<close>, \<^verbatim>\<open>^COLD OPEN.*\<close>, \<^verbatim>\<open>^OPENING TITLE.*\<close>,
  \<^verbatim>\<open>^MAIN TITLE.*\<close>, \<^verbatim>\<open>^END TITLE.*\<close>, \<^verbatim>\<open>^CREDITS.*\<close>, \<^verbatim>\<open>^VOICE.?OVER.*\<close>,
  \<^verbatim>\<open>^V\.?O\.?.*\<close>
\<close>

definition pre_scene_patterns :: "rx list" where
  "pre_scene_patterns =
     [pre_pat ''OVER BLACK'', pre_pat_colon ''FADE IN'', pre_pat ''BLACK SCREEN'',
      pre_pat_colon ''TITLE CARD'', pre_pat_colon ''SUPER'', pre_pat_colon ''SUPER TITLE'',
      pre_pat_colon ''PRELAP'', pre_pat_colon ''PRE-LAP'', pre_pat ''INSERT'',
      pre_pat ''TEASER'', pre_pat ''COLD OPEN'', pre_pat ''OPENING TITLE'',
      pre_pat ''MAIN TITLE'', pre_pat ''END TITLE'', pre_pat ''CREDITS'',
      seqs [Bol, lit ''VOICE'', ropt Dot, lit ''OVER'', Star Dot],
      seqs [Bol, Ch CHR ''V'', ropt (Ch CHR ''.''), Ch CHR ''O'', ropt (Ch CHR ''.''), Star Dot]]"

definition is_pre_scene_element :: "pstr \<Rightarrow> bool" where
  "is_pre_scene_element text = any_of (\<lambda>p. re_match False p (upper text)) pre_scene_patterns"

definition transitions :: "pstr list" where
  "transitions = map py
     [''FADE OUT'', ''FADE TO'', ''CUT TO:'', ''DISSOLVE TO:'', ''SMASH CUT TO:'',
      ''MATCH CUT:'', ''JUMP CUT:'', ''FADE TO BLACK'', ''FADE TO WHITE'', ''THE END'',
      ''BEGIN MONTAGE'', ''END MONTAGE'', ''START MONTAGE'', ''MONTAGE:'',
      ''SERIES OF SHOTS:'', ''SEQUENCE:'']"

definition is_transition :: "pstr \<Rightarrow> bool" where
  "is_transition text = any_of (\<lambda>t. startswith (upper text) t) transitions"

text \<open>
  \<open>_is_character_name\<close> takes its exclusions from the attribute
  \<open>CHARACTER_EXCLUSIONS\<close> of the pattern library when there is one, and the empty list
  otherwise; the library's attribute is \<open>character_exclusions\<close>, so the list is empty.
\<close>

definition exclusions :: "pstr list" where
  "exclusions = []"

text \<open>\<^verbatim>\<open>^[A-Z][A-Z\s\-\.\']+(\s*\([A-Z\.\s\']+\))?$\<close>\<close>

definition char_name_pattern :: rx where
  "char_name_pattern =
     seqs [Bol, Up,
           rplus (Cls False (r_AZ @ r_s @ r_c CHR ''-'' @ r_c CHR ''.'' @ [(39, 39)])),
           ropt (seqs [Star Sp, Ch CHR ''('',
                       rplus (Cls False (r_AZ @ r_c CHR ''.'' @ r_s @ [(39, 39)])),
                       Ch CHR '')'']),
           Eol]"

definition is_character_name :: "pstr \<Rightarrow> nat \<Rightarrow> nat \<Rightarrow> pstr list \<Rightarrow> py_error + bool" where
  "is_character_name text leading_spaces position lines =
     (if re_search True contd_pattern text then Inr True
      else if \<not> (32 \<le> leading_spaces \<and> leading_spaces \<le> 48) then Inr False
      else if text = [] then Inr False
      else case get text 0 of
        Inl e \<Rightarrow> Inl e
      | Inr c \<Rightarrow>
          if [c] \<noteq> upper [c] then Inr False
          else if re_match False char_name_pattern text then
            (if upper text \<in> set exclusions then Inr False
             else if position + 1 < len lines then
               (case get lines (position + 1) of
                  Inl e \<Rightarrow> Inl e
                | Inr l \<Rightarrow>
                    let next_line = strip l in
                    if next_line \<noteq> [] \<and> next_line \<noteq> upper next_line then Inr True
                    else Inr True)
             else Inr True)
          else Inr False)"

definition scene_elements :: "pstr list" where
  "scene_elements = map py [''INT.'', ''EXT.'', ''INT/'', ''EXT/'', ''I/E.'']"

definition is_scene_element :: "pstr \<Rightarrow> bool" where
  "is_scene_element text = any_of (\<lambda>e. startswith (upper text) e) scene_elements"

subsection \<open>Action signals\<close>

text \<open>
  The patterns of \<open>_is_basic_action_line\<close>, searched in the lower-cased, stripped text:
  \<^verbatim>\<open>\b[a-z]{2,}\s+(pulls?|grabs?|opens?|closes?|walks?|moves?|turns?|looks?|puts?|dries?|follows?|slips?|steps?|rolls?|runs?|hands?)\b(?!\s+(a\s+(dump|break|chance|look|while|moment)|an?\s+))\<close>,
  \<^verbatim>\<open>^(the|a|an)\s+\w+\s+(approaches?|interjects?|opens?|closes?|rings?|buzzes?|don\'t|doesn\'t)\b\<close>,
  \<^verbatim>\<open>[a-z]+\'s\s+(phone|hands?|eyes?|face|laptop|wallet|clutches|jacket)\b\<close>,
  \<^verbatim>\<open>\b(pulls? out|puts? down|picks? up|turns? around|walks? to|moves? to|slips? out|steps? out|grabs?|clutches?)\b\<close>,
  \<^verbatim>\<open>\([0-9]+s?\),?\s+[a-z]\<close>,
  \<^verbatim>\<open>\bsurrounded by\b|\bframe a\b|\bhang\b|\bsparkles? in\b|\bapproaches\b\<close>,
  \<^verbatim>\<open>\b(she|he|they)\s+(slips?|grabs?|steps?|rolls?|runs?|heads?|hands?)\b\<close>,
  \<^verbatim>\<open>\b(phone|wallet|device)\s+(buzzes?|rings?|opens?|displays?)\b\<close>,
  \<^verbatim>\<open>\b(out of his|into his|around her|to her|from the)\b\<close>
\<close>

definition basic_action_patterns :: "rx list" where
  "basic_action_patterns =
     [seqs [Wb, rep_min 2 Lo, rplus Sp,
            wss [''pull'', ''grab'', ''open'', ''close'', ''walk'', ''move'', ''turn'', ''look'',
                 ''put'', ''drie'', ''follow'', ''slip'', ''step'', ''roll'', ''run'', ''hand''],
            Wb,
            NLook (seqs [rplus Sp,
                         alts [seqs [Ch CHR ''a'', rplus Sp,
                                     wordsr [''dump'', ''break'', ''chance'', ''look'', ''while'',
                                             ''moment'']],
                               seqs [Ch CHR ''a'', ropt (Ch CHR ''n''), rplus Sp]]])],
      seqs [Bol, wordsr [''the'', ''a'', ''an''], rplus Sp, rplus Wc, rplus Sp,
            alts [ws ''approache'', ws ''interject'', ws ''open'', ws ''close'', ws ''ring'',
                  ws ''buzze'', lit ''don't'', lit ''doesn't''],
            Wb],
      seqs [rplus Lo, Lit 39, Ch CHR ''s'', rplus Sp,
            alts [lit ''phone'', ws ''hand'', ws ''eye'', lit ''face'', lit ''laptop'',
                  lit ''wallet'', lit ''clutches'', lit ''jacket''],
            Wb],
      seqs [Wb,
            alts [Seq (ws ''pull'') (lit '' out''), Seq (ws ''put'') (lit '' down''),
                  Seq (ws ''pick'') (lit '' up''), Seq (ws ''turn'') (lit '' around''),
                  Seq (ws ''walk'') (lit '' to''), Seq (ws ''move'') (lit '' to''),
                  Seq (ws ''slip'') (lit '' out''), Seq (ws ''step'') (lit '' out''),
                  ws ''grab'', ws ''clutche''],
            Wb],
      seqs [Ch CHR ''('', rplus Dg, ropt (Ch CHR ''s''), Ch CHR '')'', ropt (Ch CHR '',''),
            rplus Sp, Lo],
      alts [seqs [Wb, lit ''surrounded by'', Wb], seqs [Wb, lit ''frame a'', Wb],
            seqs [Wb, lit ''hang'', Wb], seqs [Wb, ws ''sparkle'', lit '' in'', Wb],
            seqs [Wb, lit ''approaches'', Wb]],
      seqs [Wb, wordsr [''she'', ''he'', ''they''], rplus Sp,
            wss [''slip'', ''grab'', ''step'', ''roll'', ''run'', ''head'', ''hand''], Wb],
      seqs [Wb, wordsr [''phone'', ''wallet'', ''device''], rplus Sp,
            wss [''buzze'', ''ring'', ''open'', ''display''], Wb],
      seqs [Wb, wordsr [''out of his'', ''into his'', ''around her'', ''to her'', ''from the''],
            Wb]]"

definition is_basic_action_line :: "pstr \<Rightarrow> bool" where
  "is_basic_action_line text =
     (let text_lower = strip (lower text) in
      any_of (\<lambda>pattern. re_search False pattern text_lower) basic_action_patterns)"

text \<open>
  The patterns of \<open>_contains_definitive_action_patterns\<close>, searched with IGNORECASE:
  \<^verbatim>\<open>^(INT\.|EXT\.|FADE|CUT TO:|DISSOLVE)\<close>,
  \<^verbatim>\<open>^(He|She|It|They)\s+(walks?|runs?|moves?|enters?|exits?)\<close>,
  \<^verbatim>\<open>\b(CAMERA|ANGLE ON|CLOSE ON|WIDE SHOT)\b\<close>,
  \<^verbatim>\<open>^(Meanwhile|Suddenly|Later|Then)\b\<close>
\<close>

definition definitive_patterns :: "rx list" where
  "definitive_patterns =
     [Seq Bol (wordsr [''INT.'', ''EXT.'', ''FADE'', ''CUT TO:'', ''DISSOLVE'']),
      seqs [Bol, wordsr [''He'', ''She'', ''It'', ''They''], rplus Sp,
            wss [''walk'', ''run'', ''move'', ''enter'', ''exit'']],
      seqs [Wb, wordsr [''CAMERA'', ''ANGLE ON'', ''CLOSE ON'', ''WIDE SHOT''], Wb],
      seqs [Bol, wordsr [''Meanwhile'', ''Suddenly'', ''Later'', ''Then''], Wb]]"

definition contains_definitive_action_patterns :: "pstr \<Rightarrow> bool" where
  "contains_definitive_action_patterns text =
     any_of (\<lambda>pattern. re_search True pattern text) definitive_patterns"

text \<open>
  The patterns of \<open>_contains_action_indicators\<close>.
  \<^verbatim>\<open>^(INT\.|EXT\.|INT\s|EXT\s|FADE IN:|FADE OUT:|FADE TO:|CUT TO:|DISSOLVE TO:|SMASH CUT:|MATCH CUT:|JUMP CUT:|CLOSE ON|ANGLE ON|INSERT|MONTAGE|FLASHBACK|FLASH FORWARD|INTERCUT|CONTINUOUS|LATER|MOMENTS LATER)\<close>
\<close>

definition scene_headers_pattern :: rx where
  "scene_headers_pattern =
     Seq Bol (alts [lit ''INT.'', lit ''EXT.'', Seq (lit ''INT'') Sp, Seq (lit ''EXT'') Sp,
       lit ''FADE IN:'', lit ''FADE OUT:'', lit ''FADE TO:'', lit ''CUT TO:'',
       lit ''DISSOLVE TO:'', lit ''SMASH CUT:'', lit ''MATCH CUT:'', lit ''JUMP CUT:'',
       lit ''CLOSE ON'', lit ''ANGLE ON'', lit ''INSERT'', lit ''MONTAGE'', lit ''FLASHBACK'',
       lit ''FLASH FORWARD'', lit ''INTERCUT'', lit ''CONTINUOUS'', lit ''LATER'',
       lit ''MOMENTS LATER''])"

text \<open>
  \<^verbatim>\<open>^(He|She|It|They|His|Her|Its|Their|The\s+\w+|A\s+\w+|An\s+\w+)\s+(walks?|stands?|sits?|moves?|turns?|looks?|takes?|goes?|runs?|enters?|exits?|crosses?|approaches?|reaches?|grabs?|opens?|closes?|stares?|watches?|waits?|stops?|starts?|continues?|follows?|leads?|pushes?|pulls?)\<close>
\<close>

definition third_person_pattern :: rx where
  "third_person_pattern =
     seqs [Bol,
           alts [lit ''He'', lit ''She'', lit ''It'', lit ''They'', lit ''His'', lit ''Her'',
                 lit ''Its'', lit ''Their'', seqs [lit ''The'', rplus Sp, rplus Wc],
                 seqs [lit ''A'', rplus Sp, rplus Wc], seqs [lit ''An'', rplus Sp, rplus Wc]],
           rplus Sp,
           wss [''walk'', ''stand'', ''sit'', ''move'', ''turn'', ''look'', ''take'', ''goe'',
                ''run'', ''enter'', ''exit'', ''crosse'', ''approache'', ''reache'', ''grab'',
                ''open'', ''close'', ''stare'', ''watche'', ''wait'', ''stop'', ''start'',
                ''continue'', ''follow'', ''lead'', ''pushe'', ''pull'']]"

text \<open>\<^verbatim>\<open>\b(is|are|was|were)\s+\w+ing\b\<close>\<close>

definition progressive_pattern :: rx where
  "progressive_pattern =
     seqs [Wb, wordsr [''is'', ''are'', ''was'', ''were''], rplus Sp, rplus Wc, lit ''ing'', Wb]"

text \<open>
  \<^verbatim>\<open>\b(CAMERA|CRANE|PAN|ZOOM|TRACK|DOLLY|PULL BACK|PUSH IN|REVEAL|FOCUS|FRAME|SHOT|ANGLE|POV|P\.O\.V\.|VIEW|WIDER|CLOSER|TIGHT ON|MOVING|HANDHELD|STEADICAM|AERIAL|ESTABLISHING)\b\<close>
\<close>

definition camera_pattern :: rx where
  "camera_pattern =
     seqs [Wb,
           wordsr [''CAMERA'', ''CRANE'', ''PAN'', ''ZOOM'', ''TRACK'', ''DOLLY'', ''PULL BACK'',
                   ''PUSH IN'', ''REVEAL'', ''FOCUS'', ''FRAME'', ''SHOT'', ''ANGLE'', ''POV'',
                   ''P.O.V.'', ''VIEW'', ''WIDER'', ''CLOSER'', ''TIGHT ON'', ''MOVING'',
                   ''HANDHELD'', ''STEADICAM'', ''AERIAL'', ''ESTABLISHING''],
           Wb]"

text \<open>
  \<^verbatim>\<open>\((continuing|CONT\'D|O\.S\.|V\.O\.|beat|pause|then|to\s+[A-Z][a-z]+|into\s+phone|on\s+phone|whispers?|shouts?|yells?|screams?|quietly|loudly|sarcastically|[a-z]+ing|[a-z]+ly)\)\<close>
\<close>

definition parenthetical_pattern :: rx where
  "parenthetical_pattern =
     seqs [Ch CHR ''('',
           alts [lit ''continuing'', lit ''CONT'D'', lit ''O.S.'', lit ''V.O.'', lit ''beat'',
                 lit ''pause'', lit ''then'', seqs [lit ''to'', rplus Sp, Up, rplus Lo],
                 seqs [lit ''into'', rplus Sp, lit ''phone''],
                 seqs [lit ''on'', rplus Sp, lit ''phone''],
                 ws ''whisper'', ws ''shout'', ws ''yell'', ws ''scream'', lit ''quietly'',
                 lit ''loudly'', lit ''sarcastically'', Seq (rplus Lo) (lit ''ing''),
                 Seq (rplus Lo) (lit ''ly'')],
           Ch CHR '')'']"

text \<open>
  \<^verbatim>\<open>^(Meanwhile|Suddenly|Now|Then|Later|Finally|Just then|At that moment|Behind|Above|Below|Inside|Outside|Across|Through|Beyond|Near|From|During|Before|After|As|While)\b\<close>
\<close>

definition transitions_pattern :: rx where
  "transitions_pattern =
     seqs [Bol,
           wordsr [''Meanwhile'', ''Suddenly'', ''Now'', ''Then'', ''Later'', ''Finally'',
                   ''Just then'', ''At that moment'', ''Behind'', ''Above'', ''Below'',
                   ''Inside'', ''Outside'', ''Across'', ''Through'', ''Beyond'', ''Near'',
                   ''From'', ''During'', ''Before'', ''After'', ''As'', ''While''],
           Wb]"

text \<open>
  \<^verbatim>\<open>^(The|A|An)\s+\w+\s+(is|are|stands|sits|lies|hangs|rests|covers|fills|enters|appears|emerges)\<close>
\<close>

definition descriptive_pattern :: rx where
  "descriptive_pattern =
     seqs [Bol, wordsr [''The'', ''A'', ''An''], rplus Sp, rplus Wc, rplus Sp,
           wordsr [''is'', ''are'', ''stands'', ''sits'', ''lies'', ''hangs'', ''rests'',
                   ''covers'', ''fills'', ''enters'', ''appears'', ''emerges'']]"

text \<open>\<^verbatim>\<open>\b[A-Z]{2,}(?:\s+[A-Z]{2,})*\b(?![\'\"])\<close>\<close>

definition sound_effects_pattern :: rx where
  "sound_effects_pattern =
     seqs [Wb, rep_min 2 Up, Star (Seq (rplus Sp) (rep_min 2 Up)), Wb,
           NLook (Cls False [(39, 39), (34, 34)])]"

definition celebrity_actions :: "pstr list" where
  "celebrity_actions = map py
     [''dan bilzerian jet skis'', ''jeff bezos emerges'', ''elon musk smokes'',
      ''dan bilzerian'', ''jeff bezos'', ''elon musk'', ''joe rogan podcast'',
      ''emerges from his'', ''jet skis'', ''smokes weed on'']"

text \<open>\<^verbatim>\<open>^(It\'s|It is|There\'s|There is|There are)\s+\<close>\<close>

definition atmosphere_pattern :: rx where
  "atmosphere_pattern =
     seqs [Bol, wordsr [''It's'', ''It is'', ''There's'', ''There is'', ''There are''], rplus Sp]"

text \<open>\<^verbatim>\<open>\b(as|while|when|during)\s+(he|she|they|it|[A-Z][a-z]+)\s+\w+s?\b\<close>\<close>

definition simultaneous_pattern :: rx where
  "simultaneous_pattern =
     seqs [Wb, wordsr [''as'', ''while'', ''when'', ''during''], rplus Sp,
           alts [lit ''he'', lit ''she'', lit ''they'', lit ''it'', Seq Up (rplus Lo)],
           rplus Sp, rplus Wc, ropt (Ch CHR ''s''), Wb]"

text \<open>
  The score of \<open>_contains_action_indicators\<close>.  The source adds the weights 0.98, 0.94,
  ... as floating-point numbers and compares the sum with 0.85; here the weights are
  counted in hundredths.  A sum of one weight is that weight exactly, and a sum of two or
  more is at least 1.56, so the comparison with 0.85 comes out the same.
\<close>

definition action_score :: "pstr \<Rightarrow> nat" where
  "action_score text =
     (if re_match True scene_headers_pattern text then 98 else 0)
   + (if re_match True third_person_pattern text then 94 else 0)
   + (if re_search True progressive_pattern text then 88 else 0)
   + (if re_search True camera_pattern text then 95 else 0)
   + (if re_search True parenthetical_pattern text then 93 else 0)
   + (if re_match True transitions_pattern text then 84 else 0)
   + (if re_match True descriptive_pattern text then 86 else 0)
   + (if re_search False sound_effects_pattern text \<and> \<not> isupper text then 81 else 0)
   + (if any_of (\<lambda>a. contains_str (strip (lower text)) a) celebrity_actions then 95 else 0)
   + (if re_match True atmosphere_pattern text then 77 else 0)
   + (if re_search True simultaneous_pattern text then 79 else 0)"

definition contains_action_indicators :: "pstr \<Rightarrow> bool" where
  "contains_action_indicators text =
     (let text_lower = strip (lower text) in
      if text_lower = [] then False
      else 85 \<le> action_score text)"

definition strong_dialogue_breakers :: "pstr list" where
  "strong_dialogue_breakers = map py
     [''hannah walks'', ''hannah moves'', ''hannah enters'', ''hannah exits'',
      ''she walks'', ''he walks'', ''she moves'', ''he moves'', ''she enters'',
      ''he enters'', ''angle on'', ''close on'', ''wide shot'', ''work desk'',
      ''clothing rack'', ''as we push in'', ''we push in'', ''push in on'', ''pull out'',
      ''zoom in'', ''zoom out'', ''the view of'', ''we see'', ''we witness'', ''fade in'',
      ''fade out'', ''cut to'']"

definition clear_action_indicators :: "pstr list" where
  "clear_action_indicators = map py
     [''hannah walks'', ''hannah moves'', ''hannah runs'', ''hannah sits'',
      ''hannah stands'', ''hannah enters'', ''hannah exits'', ''hannah approaches'',
      ''hannah leaves'', ''hannah picks up'', ''hannah puts down'', ''hannah grabs'',
      ''hannah throws'', ''hannah examines'', ''hannah studies'', ''hannah looks at'',
      ''hannah stares'', ''hannah opens'', ''hannah closes'', ''hannah turns'',
      ''hannah spins'', ''she walks'', ''he walks'', ''she moves'', ''he moves'',
      ''she runs'', ''he runs'', ''she sits'', ''he sits'', ''she stands'', ''he stands'',
      ''she enters'', ''he enters'', ''she exits'', ''he exits'', ''she picks'',
      ''he picks'', ''she grabs'', ''he grabs'', ''she examines'', ''he examines'',
      ''she looks'', ''he looks'', ''she opens'', ''he opens'', '' points to'',
      '' walks to'', '' moves to'', '' turns to'', '' looks at'', '' stares at'',
      '' grabs the'', '' picks up'', '' puts down'', '' throws the'', '' holds the'',
      '' waves to'', '' nods to'', '' gestures'', '' approaches'', '' enters'', '' exits'',
      ''billionaire'', ''millionaire'', ''trust-funder'', ''crypto billionaire'',
      ''influencer'', ''turned crypto'', ''turned into'', ''is a '', ''was a '',
      ''became a '', ''the view of'', ''we see'', ''we witness'', ''as we push in'',
      ''over black'', ''fade in'', ''fade out'', ''cut to'', ''dissolve to'',
      ''begin montage'', ''end montage'', ''work desk'', ''clothing rack'',
      ''wall mirror'', ''phone cam pov'', ''end phone cam'', ''angle on'', ''close on'',
      ''wide shot'', ''tight shot'', ''dance floor'', ''it's complete'', ''it's finished'',
      ''the door'', ''the window'', ''the room'', ''the table'', ''the chair'',
      ''the phone'', ''the computer'', ''surrounded by'', ''girls protest'',
      ''proud boys'', ''storm the capitol'', ''world trade center'', ''is attacked'',
      ''is laid to rest'', ''laid to rest'', ''oil fields'', ''on fire in'', ''is beaten'',
      ''nuclear bomb'', ''ignites'', ''blinding white'', ''consumes the screen'',
      ''covid-19 pandemic'', ''hoarding toilet paper'', ''protesting masks'',
      ''refusing to get'', ''saying goodbye'', ''dying family members'',
      ''million deaths'', ''antarctic ice shelf'', ''collapses into'',
      ''putin shakes hands'', ''donald trump'', ''tiananmen square'', ''massacre'',
      ''hurricane katrina'', ''polar bear'', ''takes its last breath'', ''afghanistan'',
      ''women's rights march'', ''citizens in myanmar'', ''war in ukraine'',
      ''arab spring'', ''economic collapse'', ''amazon rainforest'', ''columbine'',
      ''school shooting'', ''troops in'', ''slaughter of'', ''princess diana'']"

text \<open>\<^verbatim>\<open>^[A-Z][A-Z\s\-\.]{3,}(?::|--|\s-\s)\<close>\<close>

definition location_pattern :: rx where
  "location_pattern =
     seqs [Bol, Up, rep_min 3 (Cls False (r_AZ @ r_s @ r_c CHR ''-'' @ r_c CHR ''.'')),
           alts [Ch CHR '':'', lit ''--'', seqs [Sp, Ch CHR ''-'', Sp]]]"

definition is_clearly_action :: "cstate \<Rightarrow> pstr \<Rightarrow> bool" where
  "is_clearly_action st text =
     (let text_lower = lower text in
      if in_dialogue_block st then
        any_of (\<lambda>indicator. contains_str text_lower indicator) strong_dialogue_breakers
      else if any_of (\<lambda>indicator. contains_str text_lower indicator) clear_action_indicators
        then True
      else if re_match False location_pattern text then True
      else if any_of (\<lambda>word. contains_str text_lower word)
                (map py [''montage'', ''sequence'', ''series of'']) then True
      else False)"

subsection \<open>Dialogue signals\<close>

text \<open>
  The patterns of \<open>_is_likely_dialogue\<close>, all with IGNORECASE but the ellipsis one.
  \<^verbatim>\<open>\b(I|me|my|mine|myself|I\'m|I\'ll|I\'d|I\'ve)\b\<close>,
  \<^verbatim>\<open>\b(you|your|yours|yourself|you\'re|you\'ll|you\'d|you\'ve)\b\<close>
\<close>

definition first_person_pattern :: rx where
  "first_person_pattern =
     seqs [Wb, wordsr [''I'', ''me'', ''my'', ''mine'', ''myself'', ''I'm'', ''I'll'', ''I'd'',
                       ''I've''], Wb]"

definition second_person_pattern :: rx where
  "second_person_pattern =
     seqs [Wb, wordsr [''you'', ''your'', ''yours'', ''yourself'', ''you're'', ''you'll'',
                       ''you'd'', ''you've''], Wb]"

text \<open>
  \<^verbatim>\<open>\b(can't|won't|don't|didn't|wouldn't|couldn't|shouldn't|isn't|aren't|wasn't|weren't|hasn't|haven't|hadn't|that's|what's|where's|who's|it's|he's|she's|we're|they're|I'm|you're|I'll|you'll|we'll|they'll|I'd|you'd|we'd|they'd|I've|you've|we've|they've|let's|here's|there's)\b\<close>
\<close>

definition contractions_pattern :: rx where
  "contractions_pattern =
     seqs [Wb,
       wordsr [''can't'', ''won't'', ''don't'', ''didn't'', ''wouldn't'', ''couldn't'',
        ''shouldn't'', ''isn't'', ''aren't'', ''wasn't'', ''weren't'', ''hasn't'',
        ''haven't'', ''hadn't'', ''that's'', ''what's'', ''where's'', ''who's'', ''it's'',
        ''he's'', ''she's'', ''we're'', ''they're'', ''I'm'', ''you're'', ''I'll'',
        ''you'll'', ''we'll'', ''they'll'', ''I'd'', ''you'd'', ''we'd'', ''they'd'',
        ''I've'', ''you've'', ''we've'', ''they've'', ''let's'', ''here's'', ''there's''],
       Wb]"

text \<open>
  \<^verbatim>\<open>^(What|Where|When|Who|Why|How|Can|Could|Would|Should|Will|Do|Does|Did|Are|Is|Was|Were|Have|Has|Had|Am)\b\<close>
\<close>

definition question_pattern :: rx where
  "question_pattern =
     seqs [Bol,
       wordsr [''What'', ''Where'', ''When'', ''Who'', ''Why'', ''How'', ''Can'', ''Could'',
        ''Would'', ''Should'', ''Will'', ''Do'', ''Does'', ''Did'', ''Are'', ''Is'',
        ''Was'', ''Were'', ''Have'', ''Has'', ''Had'', ''Am''],
       Wb]"

text \<open>
  \<^verbatim>\<open>^(Come|Go|Look|Wait|Stop|Listen|Tell|Give|Take|Get|Put|Let|Bring|Hold|Shut|Move|Stay|Keep|Try|Help|Show|Make|Leave|Sit|Stand|Drop|Open|Close|Turn|Run|Walk|Call|Check|Find)\b\<close>
\<close>

definition imperative_pattern :: rx where
  "imperative_pattern =
     seqs [Bol,
       wordsr [''Come'', ''Go'', ''Look'', ''Wait'', ''Stop'', ''Listen'', ''Tell'', ''Give'',
        ''Take'', ''Get'', ''Put'', ''Let'', ''Bring'', ''Hold'', ''Shut'', ''Move'',
        ''Stay'', ''Keep'', ''Try'', ''Help'', ''Show'', ''Make'', ''Leave'', ''Sit'',
        ''Stand'', ''Drop'', ''Open'', ''Close'', ''Turn'', ''Run'', ''Walk'', ''Call'',
        ''Check'', ''Find''],
       Wb]"

text \<open>
  \<^verbatim>\<open>\b(yeah|yes|no|nope|yep|uh-huh|uh|um|ah|oh|hey|well|so|anyway|maybe|just|really|actually|basically|literally|honestly|seriously|definitely|absolutely|exactly|totally|right|sure|fine|okay|OK|alright)\b\<close>
\<close>

definition fillers_pattern :: rx where
  "fillers_pattern =
     seqs [Wb,
       wordsr [''yeah'', ''yes'', ''no'', ''nope'', ''yep'', ''uh-huh'', ''uh'', ''um'', ''ah'',
        ''oh'', ''hey'', ''well'', ''so'', ''anyway'', ''maybe'', ''just'', ''really'',
        ''actually'', ''basically'', ''literally'', ''honestly'', ''seriously'',
        ''definitely'', ''absolutely'', ''exactly'', ''totally'', ''right'', ''sure'',
        ''fine'', ''okay'', ''OK'', ''alright''],
       Wb]"

text \<open>
  \<^verbatim>\<open>\b(Jesus|Christ|God|damn|dammit|hell|shit|fuck|fucking|crap|wow|whoa|holy|geez|gosh|bastard)\b\<close>
\<close>

definition emotional_pattern :: rx where
  "emotional_pattern =
     seqs [Wb,
       wordsr [''Jesus'', ''Christ'', ''God'', ''damn'', ''dammit'', ''hell'', ''shit'', ''fuck'',
        ''fucking'', ''crap'', ''wow'', ''whoa'', ''holy'', ''geez'', ''gosh'', ''bastard''],
       Wb]"

text \<open>\<^verbatim>\<open>(\.\.\.|--|\s-\s)\<close>\<close>

definition ellipsis_pattern :: rx where
  "ellipsis_pattern = alts [lit ''...'', lit ''--'', seqs [Sp, Ch CHR ''-'', Sp]]"

text \<open>
  \<^verbatim>\<open>^(I think|I know|I believe|I feel|I mean|I guess|I suppose|I bet|I wish|I hope|I want|I need)\b\<close>
\<close>

definition opinions_pattern :: rx where
  "opinions_pattern =
     seqs [Bol,
       wordsr [''I think'', ''I know'', ''I believe'', ''I feel'', ''I mean'', ''I guess'',
        ''I suppose'', ''I bet'', ''I wish'', ''I hope'', ''I want'', ''I need''],
       Wb]"

text \<open>
  The confidence the source accumulates in \<open>dialogue_score\<close>, in hundredths.  The
  source compares the floating-point sum with 0.85, 0.75 and 0.60: a sum of no weight is
  0.0, a sum of one weight is that weight and the least of them is 0.76, and a sum of
  two or more is at least 1.57, so the comparisons come out as on the exact numbers.
\<close>

definition dialogue_score :: "pstr \<Rightarrow> nat" where
  "dialogue_score text =
     (if re_search True first_person_pattern text then 89 else 0)
   + (if re_search True second_person_pattern text then 84 else 0)
   + (if re_search True contractions_pattern text then 86 else 0)
   + (if endswith (strip text) (py ''?'') \<or> re_match True question_pattern text then 91 else 0)
   + (if re_match True imperative_pattern text then 81 else 0)
   + (if re_search True fillers_pattern text then 83 else 0)
   + (if re_search True emotional_pattern text then 85 else 0)
   + (if re_search False ellipsis_pattern text then 76 else 0)
   + (if re_match True opinions_pattern text then 87 else 0)"

definition dialogue_block_types :: "string list" where
  "dialogue_block_types = [''character'', ''parenthetical'', ''dialogue'']"

definition is_likely_dialogue :: "cstate \<Rightarrow> pstr \<Rightarrow> nat \<Rightarrow> nat \<Rightarrow> pstr list \<Rightarrow> bool" where
  "is_likely_dialogue st text leading_spaces position lines =
     (if leading_spaces < 18 \<or> leading_spaces > 35 then False
      else if is_basic_action_line text then False
      else if strip (lower text) = [] then False
      else if contains_definitive_action_patterns text then False
      else if 85 \<le> dialogue_score text then True
      else if 75 \<le> dialogue_score text
              \<and> (case last_element st of None \<Rightarrow> False | Some t \<Rightarrow> t \<in> set dialogue_block_types)
        then True
      else if 60 \<le> dialogue_score text \<and> last_element st = Some ''character'' then True
      else False)"

subsection \<open>Look-back rules\<close>

definition is_specific_hyphenated_continuation :: "pstr \<Rightarrow> nat \<Rightarrow> pstr list \<Rightarrow> py_error + bool" where
  "is_specific_hyphenated_continuation text position lines =
     (if position < 2 then Inr False
      else if contains_action_indicators text \<or> is_basic_action_line text then Inr False
      else
        let hyphen_line_pos = position - 2 in
        if hyphen_line_pos < len lines then
          (case get lines hyphen_line_pos of
             Inl e \<Rightarrow> Inl e
           | Inr hl \<Rightarrow>
               let hyphen_line = strip hl in
               if endswith hyphen_line (py ''-'') \<and> 10 < len hyphen_line
                  \<and> \<not> is_basic_action_line hyphen_line then
                 (if 0 < hyphen_line_pos then
                    (case get lines (hyphen_line_pos - 1) of
                       Inl e \<Rightarrow> Inl e
                     | Inr pl \<Rightarrow>
                         let prev_line = strip pl;
                             prev_spaces = len pl - len (lstrip pl)
                         in (case is_character_name prev_line prev_spaces
                                    (hyphen_line_pos - 1) lines of
                               Inl e \<Rightarrow> Inl e
                             | Inr b \<Rightarrow> if b then Inr True else Inr False))
                  else Inr False)
               else Inr False)
        else Inr False)"

definition is_continuation_character_name :: "pstr \<Rightarrow> bool" where
  "is_continuation_character_name text = re_search True contd_pattern text"

text \<open>
  The inner loop of \<open>_is_in_continuation_dialogue_block\<close> over \<open>j\<close>, and the outer one
  over \<open>i\<close> from \<open>position - 1\<close> down to \<open>max(0, position - 5)\<close>.
\<close>

fun contd_between :: "nat list \<Rightarrow> pstr list \<Rightarrow> py_error + bool" where
  "contd_between [] lines = Inr True"
| "contd_between (j # js) lines =
     (if len lines \<le> j then contd_between js lines
      else case get lines j of
        Inl e \<Rightarrow> Inl e
      | Inr l \<Rightarrow>
          let check_line = strip l in
          if check_line = [] then Inr False
          else if is_scene_heading check_line then Inr False
          else if patterns_is_character_name check_line then Inr False
          else if contains_definitive_action_patterns check_line then Inr False
          else contd_between js lines)"

fun contd_back :: "nat list \<Rightarrow> nat \<Rightarrow> pstr list \<Rightarrow> py_error + bool" where
  "contd_back [] position lines = Inr False"
| "contd_back (i # is) position lines =
     (if len lines \<le> i then contd_back is position lines
      else case get lines i of
        Inl e \<Rightarrow> Inl e
      | Inr l \<Rightarrow>
          let line = strip l in
          if is_continuation_character_name line then contd_between [i + 1 ..< position] lines
          else if patterns_is_character_name line then Inr False
          else if is_scene_heading line then Inr False
          else contd_back is position lines)"

definition is_in_continuation_dialogue_block :: "nat \<Rightarrow> pstr list \<Rightarrow> py_error + bool" where
  "is_in_continuation_dialogue_block position lines =
     contd_back (rev [position - 5 ..< position]) position lines"

subsection \<open>The rule cascade\<close>

definition emit :: "string \<Rightarrow> pstr \<Rightarrow> nat \<Rightarrow> cstate \<Rightarrow> py_error + element \<times> cstate" where
  "emit t text ind st = Inr (\<lparr>etype = t, etext = text, indent = ind, page = None\<rparr>, st)"

definition classify_line :: "cstate \<Rightarrow> pstr \<Rightarrow> nat \<Rightarrow> pstr list \<Rightarrow> py_error + element \<times> cstate" where
  "classify_line st line position lines =
     (let trimmed = strip line;
          leading_spaces = len line - len (lstrip line)
      in
      if re_match False contd_head trimmed \<and> re_search True contd_suffix trimmed then
        emit ''character'' trimmed 38
          (st\<lparr>last_element := Some ''character'', in_dialogue_block := True\<rparr>)
      else
      case (if trimmed \<noteq> [] then is_specific_hyphenated_continuation trimmed position lines
            else Inr False) of
        Inl e \<Rightarrow> Inl e
      | Inr hyph \<Rightarrow>
      if hyph then
        emit ''dialogue'' trimmed 25
          (st\<lparr>last_element := Some ''dialogue'', in_dialogue_block := True\<rparr>)
      else if is_pre_scene_element trimmed then
        emit ''pre_scene'' trimmed 0
          (st\<lparr>last_element := Some ''pre_scene'', in_dialogue_block := False\<rparr>)
      else if is_scene_heading trimmed then
        emit ''scene_heading'' trimmed 12
          (st\<lparr>last_element := Some ''scene_heading'', in_dialogue_block := False\<rparr>)
      else if is_transition trimmed then
        emit ''transition'' trimmed 55
          (st\<lparr>last_element := Some ''transition'', in_dialogue_block := False\<rparr>)
      else
      case is_character_name trimmed leading_spaces position lines of
        Inl e \<Rightarrow> Inl e
      | Inr is_char \<Rightarrow>
      if is_char then
        emit ''character'' trimmed 38
          (st\<lparr>last_element := Some ''character'', in_dialogue_block := True\<rparr>)
      else if in_dialogue_block st \<and> startswith trimmed (py ''('') \<and> endswith trimmed (py '')'') then
        emit ''parenthetical'' trimmed 30 (st\<lparr>last_element := Some ''parenthetical''\<rparr>)
      else if in_dialogue_block st
              \<and> (case last_element st of None \<Rightarrow> False | Some t \<Rightarrow> t \<in> set dialogue_block_types)
      then
        (if contains_action_indicators trimmed \<or> is_clearly_action st trimmed then
           emit ''action'' trimmed 12
             (st\<lparr>in_dialogue_block := False, last_element := Some ''action''\<rparr>)
         else if trimmed \<noteq> [] \<and> \<not> is_scene_element trimmed
                 \<and> is_likely_dialogue st trimmed leading_spaces position lines then
           emit ''dialogue'' trimmed 25 (st\<lparr>last_element := Some ''dialogue''\<rparr>)
         else if (last_element st = Some ''character'' \<or> last_element st = Some ''dialogue'')
                 \<and> trimmed \<noteq> [] then
           (if contains_action_indicators trimmed \<or> is_basic_action_line trimmed then
              emit ''action'' trimmed 12
                (st\<lparr>in_dialogue_block := False, last_element := Some ''action''\<rparr>)
            else
            case (if 0 < position then is_in_continuation_dialogue_block position lines
                  else Inr False) of
              Inl e \<Rightarrow> Inl e
            | Inr in_contd \<Rightarrow>
            if in_contd then
              emit ''dialogue'' trimmed 25 (st\<lparr>last_element := Some ''dialogue''\<rparr>)
            else if 18 \<le> leading_spaces \<and> leading_spaces \<le> 35 then
              emit ''dialogue'' trimmed 25 (st\<lparr>last_element := Some ''dialogue''\<rparr>)
            else
              emit ''action'' trimmed 12
                (st\<lparr>in_dialogue_block := False, last_element := Some ''action''\<rparr>))
         else
           emit ''action'' trimmed 12
             (if is_clearly_action st trimmed \<or> is_scene_element trimmed
              then st\<lparr>in_dialogue_block := False, last_element := Some ''action''\<rparr>
              else st\<lparr>last_element := Some ''action''\<rparr>))
      else
        emit ''action'' trimmed 12
          (if is_clearly_action st trimmed \<or> is_scene_element trimmed
           then st\<lparr>in_dialogue_block := False, last_element := Some ''action''\<rparr>
           else st\<lparr>last_element := Some ''action''\<rparr>))"

section \<open>Parser (screenplay_parser.py, class ScreenplayParser)\<close>

subsection \<open>Page numbers\<close>

text \<open>
  \<^verbatim>\<open>^\d{1,4}\.{0,2}$\<close>, \<^verbatim>\<open>^\d{1,4}\s*$\<close>, \<^verbatim>\<open>^Page\s+\d+\<close>, \<^verbatim>\<open>^\d{1,4}/\d{1,4}$\<close>,
  \<^verbatim>\<open>^-\s*\d+\s*-$\<close>, \<^verbatim>\<open>^\(\d+\)$\<close>
\<close>

definition page_patterns :: "rx list" where
  "page_patterns =
     [seqs [Bol, Rep 1 3 Dg, Rep 0 2 (Ch CHR ''.''), Eol],
      seqs [Bol, Rep 1 3 Dg, Star Sp, Eol],
      seqs [Bol, lit ''Page'', rplus Sp, rplus Dg],
      seqs [Bol, Rep 1 3 Dg, Ch CHR ''/'', Rep 1 3 Dg, Eol],
      seqs [Bol, Ch CHR ''-'', Star Sp, rplus Dg, Star Sp, Ch CHR ''-'', Eol],
      seqs [Bol, Ch CHR ''('', rplus Dg, Ch CHR '')'', Eol]]"

definition is_page_number :: "pstr \<Rightarrow> bool" where
  "is_page_number line =
     (let stripped = strip line in
      if stripped = [] then False
      else any_of (\<lambda>pattern. re_match True pattern stripped) page_patterns)"

subsection \<open>Artifact repair\<close>

text \<open>\<open>fix_repeated_chars\<close>: the characters of the match, each once, in order.\<close>

fun unique_chars :: "pstr \<Rightarrow> pstr \<Rightarrow> pstr" where
  "unique_chars seen [] = seen"
| "unique_chars seen (c # s) =
     (if c \<in> set seen then unique_chars seen s else unique_chars (seen @ [c]) s)"

definition fix_repeated_chars :: "pstr \<Rightarrow> caps \<Rightarrow> pstr" where
  "fix_repeated_chars m cs = unique_chars [] m"

text \<open>A pattern such as \<^verbatim>\<open>H+A+N+A+H+\<close>, and \<^verbatim>\<open>[-\s]*\<close>.\<close>

definition runs :: "string \<Rightarrow> rx" where
  "runs w = seqs (map (\<lambda>c. rplus (Ch c)) w)"

definition dash_sp :: rx where
  "dash_sp = Star (Cls False (r_c CHR ''-'' @ r_s))"

definition const_repl :: "string \<Rightarrow> pstr \<Rightarrow> caps \<Rightarrow> pstr" where
  "const_repl w m cs = py w"

text \<open>
  The substitutions of \<open>_clean_extraction_artifacts\<close> in the order the source applies
  them, each with its flags IGNORECASE and MULTILINE.  The character fixes are
  \<^verbatim>\<open>H+A+N+A+H+\<close>, \<^verbatim>\<open>D+E+E+[-\s]*F+I+[-\s]*D+O+M+\<close>, \<^verbatim>\<open>D+E+[-\s]*F+I+[-\s]*D+O+M+\<close>,
  \<^verbatim>\<open>P+A+T+R+I+C+K+\<close>, \<^verbatim>\<open>P+A+T+R+I+C+[RK]+\<close>, \<^verbatim>\<open>R+O+G+E+R+\<close>, \<^verbatim>\<open>B+O+U+N+C+E+R+\<close>,
  \<^verbatim>\<open>K+E+V+I+N+\<close>, \<^verbatim>\<open>B+R+I+A+N+\<close>, \<^verbatim>\<open>S+A+M+\<close>; then come
  \<^verbatim>\<open>([A-Z])\1{2,}([A-Z])\2{2,}([A-Z])\3{2,}\<close>, \<^verbatim>\<open>([A-Z])\1{2,}([A-Z])\2{2,}\<close>,
  \<^verbatim>\<open>([A-Z])\1{3,}\<close>, \<^verbatim>\<open>C+O+N+T+[\'\"]*D+\<close>, \<^verbatim>\<open>CONT[\'\"]{2,}DD?\<close>, \<^verbatim>\<open>CONT[\'\"]*DD\<close>,
  \<^verbatim>\<open>\(\(([^)]+)\)\)\<close>, \<^verbatim>\<open>''\<close>, \<^verbatim>\<open>([A-Z]+)\s*\(\(([A-Z\s\']+)\)\)\<close>, the six
  page-number patterns and \<^verbatim>\<open>\n{4,}\<close>.
\<close>

definition quotes :: rx where
  "quotes = Cls False [(39, 39), (34, 34)]"

definition clean_stages :: "(bool \<times> bool \<times> rx \<times> (pstr \<Rightarrow> caps \<Rightarrow> pstr)) list" where
  "clean_stages =
     [(True, False, runs ''HANAH'', const_repl ''HANNAH''),
      (True, False, seqs [runs ''DEE'', dash_sp, runs ''FI'', dash_sp, runs ''DOM''],
         const_repl ''DE-FI DOM''),
      (True, False, seqs [runs ''DE'', dash_sp, runs ''FI'', dash_sp, runs ''DOM''],
         const_repl ''DE-FI DOM''),
      (True, False, runs ''PATRICK'', const_repl ''PATRICK''),
      (True, False, seqs [runs ''PATRIC'', rplus (Cls False (r_c CHR ''R'' @ r_c CHR ''K''))],
         const_repl ''PATRICK''),
      (True, False, runs ''ROGER'', const_repl ''ROGER''),
      (True, False, runs ''BOUNCER'', const_repl ''BOUNCER''),
      (True, False, runs ''KEVIN'', const_repl ''KEVIN''),
      (True, False, runs ''BRIAN'', const_repl ''BRIAN''),
      (True, False, runs ''SAM'', const_repl ''SAM''),
      (False, False,
         seqs [Grp 1 Up, rep_min 2 (Bref 1), Grp 2 Up, rep_min 2 (Bref 2),
               Grp 3 Up, rep_min 2 (Bref 3)],
         fix_repeated_chars),
      (False, False, seqs [Grp 1 Up, rep_min 2 (Bref 1), Grp 2 Up, rep_min 2 (Bref 2)],
         fix_repeated_chars),
      (False, False, seqs [Grp 1 Up, rep_min 3 (Bref 1)], \<lambda>m cs. grp cs 1),
      (True, False, seqs [runs ''CONT'', Star quotes, rplus (Ch CHR ''D'')],
         \<lambda>m cs. py ''CONT'D''),
      (True, False, seqs [lit ''CONT'', rep_min 2 quotes, Ch CHR ''D'', ropt (Ch CHR ''D'')],
         \<lambda>m cs. py ''CONT'D''),
      (True, False, seqs [lit ''CONT'', Star quotes, lit ''DD''], \<lambda>m cs. py ''CONT'D''),
      (False, False,
         seqs [lit ''(('', Grp 1 (rplus (Cls True (r_c CHR '')''))), lit ''))''],
         \<lambda>m cs. py ''('' @ grp cs 1 @ py '')''),
      (False, False, Seq (Lit 39) (Lit 39), \<lambda>m cs. [39]),
      (False, False,
         seqs [Grp 1 (rplus Up), Star Sp, lit ''(('',
               Grp 2 (rplus (Cls False (r_AZ @ r_s @ [(39, 39)]))), lit ''))''],
         \<lambda>m cs. grp cs 1 @ py '' ('' @ grp cs 2 @ py '')''),
      (False, True, seqs [Bol, Rep 1 3 Dg, Rep 0 2 (Ch CHR ''.''), Eol], \<lambda>m cs. []),
      (False, True, seqs [Bol, Rep 1 3 Dg, Star Sp, Eol], \<lambda>m cs. []),
      (True, True, seqs [Bol, lit ''Page'', rplus Sp, rplus Dg], \<lambda>m cs. []),
      (False, True, seqs [Bol, Rep 1 3 Dg, Ch CHR ''/'', Rep 1 3 Dg, Eol], \<lambda>m cs. []),
      (False, True, seqs [Bol, Ch CHR ''-'', Star Sp, rplus Dg, Star Sp, Ch CHR ''-'', Eol],
         \<lambda>m cs. []),
      (False, True, seqs [Bol, Ch CHR ''('', rplus Dg, Ch CHR '')'', Eol], \<lambda>m cs. []),
      (False, False, rep_min 4 (Lit 10), \<lambda>m cs. [10, 10, 10])]"

definition clean_extraction_artifacts :: "pstr \<Rightarrow> pstr" where
  "clean_extraction_artifacts text =
     (if text = [] then text
      else foldl (\<lambda>t (ic, ml, r, rep). re_sub ic ml r rep t) text clean_stages)"

subsection \<open>Formatting\<close>

definition truthy :: "string option \<Rightarrow> bool" where
  "truthy t = (case t of None \<Rightarrow> False | Some s \<Rightarrow> s \<noteq> [])"

definition spacing_rules :: "(string \<times> string) list" where
  "spacing_rules =
     [(''action'', ''character''), (''dialogue'', ''character''),
      (''parenthetical'', ''character''), (''transition'', ''character''),
      (''dialogue'', ''action''), (''character'', ''action''),
      (''parenthetical'', ''action''), (''transition'', ''action''),
      (''action'', ''scene_heading''), (''dialogue'', ''scene_heading''),
      (''character'', ''scene_heading''), (''parenthetical'', ''scene_heading''),
      (''transition'', ''scene_heading''), (''pre_scene'', ''scene_heading''),
      (''action'', ''transition''), (''dialogue'', ''transition''),
      (''character'', ''transition''), (''parenthetical'', ''transition''),
      (''action'', ''pre_scene''), (''dialogue'', ''pre_scene''),
      (''character'', ''pre_scene'')]"

definition needs_spacing :: "string \<Rightarrow> string \<Rightarrow> bool" where
  "needs_spacing last_type current_type = ((last_type, current_type) \<in> set spacing_rules)"

definition focus_names :: "pstr list" where
  "focus_names = map py
     [''hannah'', ''de-fi dom'', ''patrick'', ''roger'', ''kevin'', ''brian'', ''sam'']"

text \<open>\<open>next(...)\<close> over the names: the first name the text starts with.\<close>

fun first_name :: "pstr list \<Rightarrow> pstr \<Rightarrow> pstr option" where
  "first_name [] s = None"
| "first_name (n # ns) s = (if startswith s (lower n) then Some n else first_name ns s)"

definition is_new_action_paragraph :: "pstr \<Rightarrow> pstr \<Rightarrow> bool" where
  "is_new_action_paragraph last_action current_action =
     (let last_lower = lower last_action;
          current_lower = lower current_action;
          last_starts_with_char = any_of (\<lambda>n. startswith last_lower (lower n)) focus_names;
          current_starts_with_char = any_of (\<lambda>n. startswith current_lower (lower n)) focus_names;
          scene_els = map py [''work desk'', ''clothing rack'', ''wall mirror'',
                              ''phone cam pov'', ''angle on'', ''close on'']
      in
      if last_starts_with_char \<and> current_starts_with_char
         \<and> first_name focus_names last_lower \<noteq> first_name focus_names current_lower then True
      else if any_of (\<lambda>e. contains_str last_lower e) scene_els
              \<and> any_of (\<lambda>e. contains_str current_lower e) scene_els then True
      else if endswith (strip last_action) (py ''.'')
              \<and> (case strip current_action of [] \<Rightarrow> False | c # s \<Rightarrow> is_upper_c c)
              \<and> any_of (\<lambda>starter. startswith current_lower starter)
                   (map py [''the '', ''a '', ''an '', ''buzzing'', ''hannah'', ''de-fi'',
                            ''patrick'']) then True
      else if any_of (\<lambda>transition. contains_str current_lower transition)
                (map py [''later'', ''moments later'', ''meanwhile'', ''suddenly'', ''then'',
                         ''now'']) then True
      else False)"

definition SCENE_ELEMENTS :: "pstr list" where
  "SCENE_ELEMENTS = map py
     [''WORK DESK'', ''CLOTHING RACK'', ''WALL MIRROR'', ''DANCE FLOOR'', ''ANGLE ON:'',
      ''CLOSE ON:'', ''INSERT:'', ''BACK TO SCENE'', ''PHONE CAM POV:'',
      ''END PHONE CAM POV:'', ''PRE-LAP:'', ''PRELAP:'', ''ANGLE ON'', ''CLOSE ON'',
      ''INSERT'', ''TIGHT ON'', ''WIDE ON'']"

text \<open>\<open>se.rstrip(':')\<close>\<close>

definition rstrip_colon :: "pstr \<Rightarrow> pstr" where
  "rstrip_colon s = rev (dropWhile (\<lambda>c. c = 58) (rev s))"

text \<open>\<open>'\n'.join\<close>\<close>

fun join_lines :: "pstr list \<Rightarrow> pstr" where
  "join_lines [] = []"
| "join_lines [l] = l"
| "join_lines (l # ls) = l @ 10 # join_lines ls"

text \<open>
  The state of the loop of \<open>format_screenplay_content\<close>, and its body.  Dialogue is
  wrapped by \<open>textwrap.wrap(text, width=35, break_long_words=False)\<close> of the Python
  library, which is the parameter \<open>wrap\<close> here.
\<close>

record fstate =
  formatted_lines :: "pstr list"
  last_type :: "string option"
  last_action_text :: "pstr option"

definition format_element :: "(pstr \<Rightarrow> nat \<Rightarrow> pstr list) \<Rightarrow> fstate \<Rightarrow> element \<Rightarrow> fstate" where
  "format_element wrap fs el =
     (let element_type = etype el;
          text = strip (etext el);
          ind = indent el;
          is_scene_el = any_of (\<lambda>se. startswith (upper text) (rstrip_colon se)) SCENE_ELEMENTS;
          l1 = formatted_lines fs
               @ (if is_scene_el \<and> truthy (last_type fs) \<and> last_type fs \<noteq> Some ''scene_heading''
                  then [[]] else []);
          l2 = l1 @ (if (case last_type fs of None \<Rightarrow> False
                                | Some lt \<Rightarrow> lt \<noteq> [] \<and> needs_spacing lt element_type)
                     then [[]] else []);
          l3 = l2 @ (if element_type = ''action'' \<and> last_type fs = Some ''action''
                        \<and> \<not> is_scene_el
                        \<and> (case last_action_text fs of None \<Rightarrow> False
                             | Some a \<Rightarrow> a \<noteq> [] \<and> is_new_action_paragraph a text)
                     then [[]] else [])
      in
      if element_type = ''pre_scene'' then
        fs\<lparr>formatted_lines := l3 @ [spaces 12 @ text] @ (if text \<noteq> [] then [[]] else []),
           last_type := Some element_type\<rparr>
      else if element_type = ''scene_heading'' then
        fs\<lparr>formatted_lines := l3 @ [spaces ind @ upper text, []],
           last_type := Some element_type\<rparr>
      else if element_type = ''action'' then
        (if text \<noteq> [] then
           fs\<lparr>formatted_lines := l3 @ [spaces ind @ text] @ (if is_scene_el then [[]] else []),
              last_type := Some element_type, last_action_text := Some text\<rparr>
         else fs\<lparr>formatted_lines := l3, last_type := Some element_type\<rparr>)
      else if element_type = ''character'' then
        fs\<lparr>formatted_lines := l3 @ (if last_type fs = Some ''action'' then [[]] else [])
                                 @ [spaces ind @ upper text],
           last_type := Some element_type\<rparr>
      else if element_type = ''dialogue'' then
        fs\<lparr>formatted_lines := l3 @ map (\<lambda>line. spaces ind @ line) (wrap text 35),
           last_type := Some element_type\<rparr>
      else if element_type = ''parenthetical'' then
        fs\<lparr>formatted_lines := l3 @ [spaces ind @ text], last_type := Some element_type\<rparr>
      else if element_type = ''transition'' then
        fs\<lparr>formatted_lines := l3 @ [spaces (72 - len text) @ upper text, []],
           last_type := Some element_type\<rparr>
      else fs\<lparr>formatted_lines := l3, last_type := Some element_type\<rparr>)"

definition format_screenplay_content :: "(pstr \<Rightarrow> nat \<Rightarrow> pstr list) \<Rightarrow> element list \<Rightarrow> pstr" where
  "format_screenplay_content wrap elements =
     (let fs = foldl (format_element wrap)
                 \<lparr>formatted_lines = [], last_type = None, last_action_text = None\<rparr> elements
      in re_sub False False (rep_min 4 (Lit 10)) (\<lambda>m cs. [10, 10, 10])
           (join_lines (formatted_lines fs)))"

subsection \<open>Scene assembly\<close>

text \<open>
  A page is the dictionary with \<open>page_num\<close> and \<open>lines\<close>; a scene is the dictionary the
  parser appends to \<open>scenes\<close>.  \<open>_parse_sequential_content\<close> calls
  \<open>format_screenplay_content\<close> on the elements of a scene when it closes the scene;
  the loop below takes that function as \<open>fmt\<close>, so that the same loop also gives the
  elements of each scene before they are formatted (with the identity for \<open>fmt\<close>).
\<close>

record page_data =
  page_num :: int
  page_lines :: "pstr list"

record 'c scene =
  heading :: pstr
  content :: 'c
  characters :: "pstr set"
  page_start :: int
  page_end :: int

record 'c pstate =
  scenes :: "'c scene list"
  current_scene_heading :: "pstr option"
  current_scene_elements :: "element list"
  scene_characters :: "pstr set"
  current_scene_page :: int
  classifier :: cstate

definition heading_text :: "pstr option \<Rightarrow> pstr" where
  "heading_text h = (case h of None \<Rightarrow> [] | Some t \<Rightarrow> if t = [] then [] else spaces 12 @ upper t)"

definition close_scene :: "(element list \<Rightarrow> 'c) \<Rightarrow> int \<Rightarrow> 'c pstate \<Rightarrow> 'c scene list" where
  "close_scene fmt pend ps =
     (if (case current_scene_heading ps of None \<Rightarrow> False | Some t \<Rightarrow> t \<noteq> [])
         \<or> current_scene_elements ps \<noteq> []
      then scenes ps @
        [\<lparr>heading = heading_text (current_scene_heading ps),
          content = fmt (current_scene_elements ps),
          characters = scene_characters ps,
          page_start = current_scene_page ps,
          page_end = pend\<rparr>]
      else scenes ps)"

definition parse_line :: "(element list \<Rightarrow> 'c) \<Rightarrow> int \<Rightarrow> pstr list \<Rightarrow> 'c pstate \<Rightarrow> nat \<Rightarrow> pstr
    \<Rightarrow> py_error + 'c pstate" where
  "parse_line fmt pnum lns ps i raw_line =
     (if strip raw_line = [] then Inr ps
      else if is_page_number raw_line then Inr ps
      else
        let clean_line = clean_extraction_artifacts raw_line in
        if strip clean_line = [] then Inr ps
        else
          case classify_line (classifier ps) clean_line i lns of
            Inl e \<Rightarrow> Inl e
          | Inr (el, st') \<Rightarrow>
              let el = el\<lparr>page := Some pnum\<rparr> in
              if etype el = ''scene_heading'' then
                Inr (ps\<lparr>scenes := close_scene fmt (if 1 < pnum then pnum - 1 else 1) ps,
                        current_scene_heading := Some (etext el),
                        current_scene_page := pnum,
                        current_scene_elements := [],
                        scene_characters := {},
                        classifier := st'\<rparr>)
              else if etype el = ''character'' then
                let clean_name = strip (re_sub False False paren_ext (\<lambda>m cs. []) (etext el)) in
                Inr (ps\<lparr>scene_characters :=
                          (if clean_name \<noteq> [] \<and> 2 \<le> len clean_name \<and> len clean_name \<le> 35
                           then insert clean_name (scene_characters ps)
                           else scene_characters ps),
                        current_scene_elements := current_scene_elements ps @ [el],
                        classifier := st'\<rparr>)
              else
                Inr (ps\<lparr>current_scene_elements := current_scene_elements ps @ [el],
                        classifier := st'\<rparr>))"

text \<open>The loop over \<open>enumerate(lines)\<close> and the loop over the pages.\<close>

fun parse_lines :: "(element list \<Rightarrow> 'c) \<Rightarrow> int \<Rightarrow> pstr list \<Rightarrow> 'c pstate \<Rightarrow> nat \<Rightarrow> pstr list
    \<Rightarrow> py_error + 'c pstate" where
  "parse_lines fmt pnum lns ps i [] = Inr ps"
| "parse_lines fmt pnum lns ps i (raw_line # rest) =
     (case parse_line fmt pnum lns ps i raw_line of
        Inl e \<Rightarrow> Inl e
      | Inr ps' \<Rightarrow> parse_lines fmt pnum lns ps' (i + 1) rest)"

fun parse_pages :: "(element list \<Rightarrow> 'c) \<Rightarrow> 'c pstate \<Rightarrow> page_data list \<Rightarrow> py_error + 'c pstate" where
  "parse_pages fmt ps [] = Inr ps"
| "parse_pages fmt ps (pd # pds) =
     (case parse_lines fmt (page_num pd) (page_lines pd) ps 0 (page_lines pd) of
        Inl e \<Rightarrow> Inl e
      | Inr ps' \<Rightarrow> parse_pages fmt ps' pds)"

definition parse_with :: "(element list \<Rightarrow> 'c) \<Rightarrow> page_data list \<Rightarrow> py_error + 'c scene list" where
  "parse_with fmt pages_data =
     (case parse_pages fmt
             \<lparr>scenes = [], current_scene_heading = None, current_scene_elements = [],
              scene_characters = {}, current_scene_page = 1, classifier = init_state\<rparr>
             pages_data of
        Inl e \<Rightarrow> Inl e
      | Inr ps \<Rightarrow>
          Inr (close_scene fmt (if pages_data = [] then 1 else page_num (last pages_data)) ps))"

definition parse_sequential_content :: "(pstr \<Rightarrow> nat \<Rightarrow> pstr list) \<Rightarrow> page_data list
    \<Rightarrow> py_error + pstr scene list" where
  "parse_sequential_content wrap pages_data =
     parse_with (format_screenplay_content wrap) pages_data"

section \<open>Notions of the specification\<close>

text \<open>The seven element types.\<close>

definition element_types :: "string list" where
  "element_types = [''scene_heading'', ''character'', ''dialogue'', ''parenthetical'',
     ''transition'', ''pre_scene'', ''action'']"

text \<open>
  A line reaches the dialogue/action step of \<open>classify_line\<close> when none of the rules
  before it fires and the guard of that step holds.
\<close>

definition reaches_disambiguation :: "cstate \<Rightarrow> pstr \<Rightarrow> nat \<Rightarrow> pstr list \<Rightarrow> bool" where
  "reaches_disambiguation st line position lines =
     (let trimmed = strip line;
          leading_spaces = len line - len (lstrip line)
      in \<not> (re_match False contd_head trimmed \<and> re_search True contd_suffix trimmed)
         \<and> (if trimmed \<noteq> [] then is_specific_hyphenated_continuation trimmed position lines
             else Inr False) = Inr False
         \<and> \<not> is_pre_scene_element trimmed
         \<and> \<not> is_scene_heading trimmed
         \<and> \<not> is_transition trimmed
         \<and> is_character_name trimmed leading_spaces position lines = Inr False
         \<and> \<not> (startswith trimmed (py ''('') \<and> endswith trimmed (py '')''))
         \<and> in_dialogue_block st
         \<and> (case last_element st of None \<Rightarrow> False | Some t \<Rightarrow> t \<in> set dialogue_block_types))"

text \<open>The strong action signal of that step.\<close>

definition strong_action_signal :: "cstate \<Rightarrow> pstr \<Rightarrow> bool" where
  "strong_action_signal st line =
     (contains_action_indicators (strip line) \<or> is_clearly_action st (strip line))"

text \<open>
  The test on the confidence score as the source has it, and as the specification words
  it (``exceeds'' for the first two thresholds), both in hundredths.
\<close>

definition score_passes :: "cstate \<Rightarrow> nat \<Rightarrow> bool" where
  "score_passes st score =
     (85 \<le> score
      \<or> (75 \<le> score
          \<and> (case last_element st of None \<Rightarrow> False | Some t \<Rightarrow> t \<in> set dialogue_block_types))
      \<or> (60 \<le> score \<and> last_element st = Some ''character''))"

definition score_exceeds :: "cstate \<Rightarrow> nat \<Rightarrow> bool" where
  "score_exceeds st score =
     (85 < score
      \<or> (75 < score
          \<and> (case last_element st of None \<Rightarrow> False | Some t \<Rightarrow> t \<in> set dialogue_block_types))
      \<or> (60 \<le> score \<and> last_element st = Some ''character''))"


text \<open>
  The elements of a document: what the loop of \<open>_parse_sequential_content\<close> classifies,
  in document order.  This is the loop itself with the bookkeeping of scenes left out: a
  line is skipped when it is blank, a page number, or blank after the repair, and every
  other line is classified in the state the line before left and gets its page.
\<close>

definition classify_raw :: "int \<Rightarrow> pstr list \<Rightarrow> cstate \<Rightarrow> nat \<Rightarrow> pstr
    \<Rightarrow> py_error + element option \<times> cstate" where
  "classify_raw pnum lns st i raw_line =
     (if strip raw_line = [] then Inr (None, st)
      else if is_page_number raw_line then Inr (None, st)
      else
        let clean_line = clean_extraction_artifacts raw_line in
        if strip clean_line = [] then Inr (None, st)
        else
          case classify_line st clean_line i lns of
            Inl e \<Rightarrow> Inl e
          | Inr (el, st') \<Rightarrow> Inr (Some (el\<lparr>page := Some pnum\<rparr>), st'))"

fun classify_lines :: "int \<Rightarrow> pstr list \<Rightarrow> cstate \<Rightarrow> nat \<Rightarrow> pstr list
    \<Rightarrow> py_error + element list \<times> cstate" where
  "classify_lines pnum lns st i [] = Inr ([], st)"
| "classify_lines pnum lns st i (raw_line # rest) =
     (case classify_raw pnum lns st i raw_line of
        Inl e \<Rightarrow> Inl e
      | Inr (eo, st') \<Rightarrow>
          (case classify_lines pnum lns st' (i + 1) rest of
             Inl e \<Rightarrow> Inl e
           | Inr (els, st'') \<Rightarrow> Inr ((case eo of None \<Rightarrow> [] | Some el \<Rightarrow> [el]) @ els, st'')))"

fun classify_pages :: "cstate \<Rightarrow> page_data list \<Rightarrow> py_error + element list \<times> cstate" where
  "classify_pages st [] = Inr ([], st)"
| "classify_pages st (pd # pds) =
     (case classify_lines (page_num pd) (page_lines pd) st 0 (page_lines pd) of
        Inl e \<Rightarrow> Inl e
      | Inr (els, st') \<Rightarrow>
          (case classify_pages st' pds of
             Inl e \<Rightarrow> Inl e
           | Inr (els', st'') \<Rightarrow> Inr (els @ els', st'')))"

definition classified_elements :: "page_data list \<Rightarrow> py_error + element list" where
  "classified_elements pages_data =
     (case classify_pages init_state pages_data of
        Inl e \<Rightarrow> Inl e
      | Inr (els, st) \<Rightarrow> Inr els)"

text \<open>The elements that the loop appends to the elements of the current scene.\<close>

definition in_content :: "element \<Rightarrow> bool" where
  "in_content el = (etype el \<noteq> ''scene_heading'')"

text \<open>
  The scenes of a list of elements, as the assembler cuts it: a scene heading closes the
  scene that is open and opens a new one, which has its text for a heading; every other
  element goes to the scene that is open; the elements before the first heading make a
  scene without a heading.  A scene with neither a heading nor an element is left out.
\<close>

definition opens_scene :: "pstr option \<Rightarrow> element list \<Rightarrow> bool" where
  "opens_scene h cur = ((case h of None \<Rightarrow> False | Some t \<Rightarrow> t \<noteq> []) \<or> cur \<noteq> [])"

fun scene_groups :: "pstr option \<Rightarrow> element list \<Rightarrow> element list
    \<Rightarrow> (pstr option \<times> element list) list" where
  "scene_groups h cur [] = (if opens_scene h cur then [(h, cur)] else [])"
| "scene_groups h cur (el # els) =
     (if etype el = ''scene_heading''
      then (if opens_scene h cur then [(h, cur)] else []) @ scene_groups (Some (etext el)) [] els
      else scene_groups h (cur @ [el]) els)"

text \<open>
  The canonical indentation of the element types in the data model of the
  specification; the classifier gives a pre-scene element the indentation 0.
\<close>

definition canonical_indent :: "string \<Rightarrow> nat" where
  "canonical_indent t =
     (if t = ''character'' then 38 else if t = ''dialogue'' then 25
      else if t = ''parenthetical'' then 30 else if t = ''action'' then 12
      else if t = ''scene_heading'' then 12 else if t = ''transition'' then 55 else 0)"

text \<open>
  The indentation at which \<open>format_screenplay_content\<close> writes an element, and the
  lines it writes behind that indentation.
\<close>

definition rendered_indent :: "element \<Rightarrow> nat" where
  "rendered_indent el =
     (if etype el = ''pre_scene'' then 12
      else if etype el = ''transition'' then 72 - len (strip (etext el))
      else indent el)"

definition rendered_text :: "(pstr \<Rightarrow> nat \<Rightarrow> pstr list) \<Rightarrow> element \<Rightarrow> pstr list" where
  "rendered_text wrap el =
     (let t = etype el; text = strip (etext el) in
      if t = ''pre_scene'' \<or> t = ''parenthetical'' then [text]
      else if t = ''scene_heading'' \<or> t = ''character'' \<or> t = ''transition'' then [upper text]
      else if t = ''action'' then (if text \<noteq> [] then [text] else [])
      else if t = ''dialogue'' then wrap text 35
      else [])"

text \<open>
  The page-number forms that the specification lists: a bare number of one to four
  digits with at most two periods behind it, \<open>Page N\<close>, \<open>N/M\<close>, \<open>- N -\<close> and \<open>(N)\<close>,
  where \<open>N\<close> and \<open>M\<close> are numbers of one to four digits.
\<close>

datatype page_number_form =
    Bare pstr nat
  | PageN pstr
  | Slash pstr pstr
  | Dashes pstr
  | Parens pstr

definition page_no :: "pstr \<Rightarrow> bool" where
  "page_no n = (isdigit n \<and> len n \<le> 4)"

fun form_ok :: "page_number_form \<Rightarrow> bool" where
  "form_ok (Bare n k) = (page_no n \<and> k \<le> 2)"
| "form_ok (PageN n) = page_no n"
| "form_ok (Slash n m) = (page_no n \<and> page_no m)"
| "form_ok (Dashes n) = page_no n"
| "form_ok (Parens n) = page_no n"

fun form_text :: "page_number_form \<Rightarrow> pstr" where
  "form_text (Bare n k) = n @ replicate k 46"
| "form_text (PageN n) = py ''Page '' @ n"
| "form_text (Slash n m) = n @ py ''/'' @ m"
| "form_text (Dashes n) = py ''- '' @ n @ py '' -''"
| "form_text (Parens n) = py ''('' @ n @ py '')''"
section \<open>Evaluation\<close>

text \<open>
  Rewrite rules that evaluate the definitions above on texts given as literals: numerals
  for the counters of \<open>rep_it\<close>, \<open>get\<close> and \<open>replicate\<close>, and the collections \<open>ev\<close>,
  \<open>ev_cls\<close> and \<open>ev_parse\<close> of defining equations.
\<close>

lemma rep_it_num:
  "rep_it (numeral m) e f k = f (rep_it (pred_numeral m) e f k)"
  "rep_it 1 e f k = f (rep_it 0 e f k)"
  "rep_it 0 (numeral n) f k = (\<lambda>p s i cs.
     case f (rep_it 0 (pred_numeral n) f k) p s i cs of Some r \<Rightarrow> Some r | None \<Rightarrow> k p s i cs)"
  "rep_it 0 1 f k = (\<lambda>p s i cs.
     case f (rep_it 0 0 f k) p s i cs of Some r \<Rightarrow> Some r | None \<Rightarrow> k p s i cs)"
  "rep_it 0 0 f k = k"
  by (auto simp: numeral_eq_Suc fun_eq_iff)

lemma get_num:
  "get (x # xs) 0 = Inr x"
  "get (x # xs) 1 = get xs 0"
  "get (x # xs) (numeral n) = get xs (pred_numeral n)"
  by (simp_all add: numeral_eq_Suc)

lemma replicate_num:
  "replicate 0 x = []"
  "replicate 1 x = [x]"
  "replicate (numeral n) x = x # replicate (pred_numeral n) x"
  by (simp_all add: numeral_eq_Suc)

lemmas ev_num = rel_simps arith_simps arith_special simp_thms if_True if_False
  add_0 add_0_right mult_zero_left mult_zero_right mult_1 mult_1_right pred_numeral_simps
  diff_nat_numeral nat_numeral_diff_1 nat_numeral nat_neg_numeral nat_0 nat_one_as_int[symmetric]
  diff_zero diff_0_eq_0 diff_self_eq_0 Let_def

lemmas ev_data = list.case option.case prod.case sum.case list.map map_of.simps fst_conv snd_conv
  option.simps list.simps prod.inject sum.simps append.simps of_char_Char horner_sum_simps
  of_bool_eq list.set insert_iff empty_iff char.inject rev.simps foldl.simps dropWhile.simps
  last.simps replicate_num get_num cstate.simps element.simps fstate.simps page_data.simps
  scene.simps pstate.simps py_error.simps

lemmas ev_text = py_def is_space_def is_upper_c_def is_lower_c_def is_digit_def is_word_def
  upper_c_def lower_c_def upper_def lower_def len.simps lstrip.simps rstrip_def strip_def
  startswith.simps endswith_def contains_str.simps any_of.simps isupper_def isdigit_def
  spaces_def

lemmas ev_rx = in_ranges.simps cls_ok_def lit_ok_def step1.simps star_it.simps rep_it_num
  chop.simps bref_it.simps at_bol_def at_eol_def at_wb_def rxm.simps accept_def lit.simps
  seqs.simps alts.simps rplus_def ropt_def rep_min_def wordsr_def ws_def wss_def
  re_match_def search_from.simps re_search_def sub_go.simps re_sub_def grp_def
  r_s_def r_w_def r_d_def r_AZ_def r_az_def r_c_def Sp_def Wc_def Dg_def Up_def Lo_def Ch_def

lemmas ev = ev_num ev_data ev_text ev_rx

lemmas ev_cls = scene_patterns_def is_scene_heading_def contd_suffix_def contd_pattern_def
  contd_head_def pre_pat_def pre_pat_colon_def pre_scene_patterns_def is_pre_scene_element_def
  transitions_def is_transition_def exclusions_def char_name_pattern_def is_character_name_def
  scene_elements_def is_scene_element_def basic_action_patterns_def is_basic_action_line_def
  definitive_patterns_def contains_definitive_action_patterns_def scene_headers_pattern_def
  third_person_pattern_def progressive_pattern_def camera_pattern_def parenthetical_pattern_def
  transitions_pattern_def descriptive_pattern_def sound_effects_pattern_def
  celebrity_actions_def atmosphere_pattern_def simultaneous_pattern_def action_score_def
  contains_action_indicators_def strong_dialogue_breakers_def clear_action_indicators_def
  location_pattern_def is_clearly_action_def first_person_pattern_def
  second_person_pattern_def contractions_pattern_def question_pattern_def
  imperative_pattern_def fillers_pattern_def emotional_pattern_def ellipsis_pattern_def
  opinions_pattern_def dialogue_score_def dialogue_block_types_def is_likely_dialogue_def
  is_specific_hyphenated_continuation_def init_state_def emit_def classify_line_def

lemmas ev_parse = fun_upd_apply paren_ext_def is_page_number_def page_patterns_def unique_chars.simps
  fix_repeated_chars_def runs_def dash_sp_def const_repl_def quotes_def clean_stages_def
  clean_extraction_artifacts_def truthy_def spacing_rules_def needs_spacing_def
  focus_names_def first_name.simps is_new_action_paragraph_def SCENE_ELEMENTS_def
  rstrip_colon_def join_lines.simps format_element_def format_screenplay_content_def
  heading_text_def close_scene_def parse_line_def parse_lines.simps parse_pages.simps
  parse_with_def parse_sequential_content_def classify_raw_def classify_lines.simps
  classify_pages.simps classified_elements_def in_content_def opens_scene_def scene_groups.simps
  canonical_indent_def rendered_indent_def rendered_text_def page_no_def form_ok.simps
  form_text.simps

section \<open>The classifier's state after a call\<close>

lemma len_length: "len xs = length xs"
  by (induction xs) simp_all

lemma get_in_range: "i < length xs \<Longrightarrow> get xs i = Inr (xs ! i)"
proof (induction xs arbitrary: i)
  case Nil
  then show ?case by simp
next
  case (Cons x xs)
  then show ?case by (cases i) simp_all
qed

text \<open>The three methods that index \<open>lines\<close> or \<open>text\<close> guard every index, so none raises.\<close>

lemma is_character_name_returns:
  "\<not> isl (is_character_name text leading_spaces position lines)"
proof -
  have a: "text \<noteq> [] \<Longrightarrow> get text 0 = Inr (text ! 0)"
    by (simp add: get_in_range)
  have b: "position + 1 < len lines \<Longrightarrow> get lines (position + 1) = Inr (lines ! (position + 1))"
    by (simp add: get_in_range len_length)
  show ?thesis
    unfolding is_character_name_def Let_def using a b by auto
qed

lemma is_specific_hyphenated_continuation_returns:
  "\<not> isl (is_specific_hyphenated_continuation text position lines)"
proof (cases "position - 2 < len lines")
  case False
  then show ?thesis
    unfolding is_specific_hyphenated_continuation_def Let_def by auto
next
  case True
  then have a: "get lines (position - 2) = Inr (lines ! (position - 2))"
    by (simp add: get_in_range len_length)
  from True have b: "get lines (position - 2 - 1) = Inr (lines ! (position - 2 - 1))"
    by (simp add: get_in_range len_length)
  have c: "\<not> isl (is_character_name (strip (lines ! (position - 2 - 1)))
      (len (lines ! (position - 2 - 1)) - len (lstrip (lines ! (position - 2 - 1))))
      (position - 2 - 1) lines)"
    by (rule is_character_name_returns)
  show ?thesis
    unfolding is_specific_hyphenated_continuation_def Let_def using a b c
    by (auto split: sum.splits)
qed

lemma contd_between_returns: "\<not> isl (contd_between js lines)"
proof (induction js)
  case Nil
  then show ?case by simp
next
  case (Cons j js)
  show ?case
  proof (cases "len lines \<le> j")
    case True
    with Cons show ?thesis by simp
  next
    case False
    then have "get lines j = Inr (lines ! j)"
      by (simp add: get_in_range len_length)
    with False Cons show ?thesis by (auto simp: Let_def)
  qed
qed

lemma contd_back_returns: "\<not> isl (contd_back is position lines)"
proof (induction "is")
  case Nil
  then show ?case by simp
next
  case (Cons i "is")
  show ?case
  proof (cases "len lines \<le> i")
    case True
    with Cons show ?thesis by simp
  next
    case False
    then have "get lines i = Inr (lines ! i)"
      by (simp add: get_in_range len_length)
    with False Cons contd_between_returns [of "[i + 1 ..< position]" lines] show ?thesis
      by (auto simp: Let_def)
  qed
qed

lemma is_in_continuation_dialogue_block_returns:
  "\<not> isl (is_in_continuation_dialogue_block position lines)"
  unfolding is_in_continuation_dialogue_block_def by (rule contd_back_returns)

text \<open>
  The three calls of \<open>classify_line\<close> that can index a list return a truth value, so
  the cascade can be read with these values in place of the calls.
\<close>

lemma classify_line_calls:
  obtains h c d where
    "(if strip line \<noteq> []
      then is_specific_hyphenated_continuation (strip line) position lines else Inr False) = Inr h"
    "is_character_name (strip line) (len line - len (lstrip line)) position lines = Inr c"
    "(if 0 < position then is_in_continuation_dialogue_block position lines
      else Inr False) = Inr d"
proof -
  have "\<not> isl (if strip line \<noteq> []
      then is_specific_hyphenated_continuation (strip line) position lines else Inr False)"
    using is_specific_hyphenated_continuation_returns [of "strip line" position lines]
    by (cases "strip line \<noteq> []") simp_all
  then obtain h where h: "(if strip line \<noteq> []
      then is_specific_hyphenated_continuation (strip line) position lines else Inr False) = Inr h"
    by (metis sum.collapse(2))
  obtain c where c: "is_character_name (strip line) (len line - len (lstrip line))
      position lines = Inr c"
    by (metis is_character_name_returns sum.collapse(2))
  have "\<not> isl (if 0 < position then is_in_continuation_dialogue_block position lines
      else Inr False)"
    using is_in_continuation_dialogue_block_returns [of position lines]
    by (cases "0 < position") simp_all
  then obtain d where d: "(if 0 < position
      then is_in_continuation_dialogue_block position lines else Inr False) = Inr d"
    by (metis sum.collapse(2))
  from h c d that show thesis by blast
qed

text \<open>
  \<^bold>\<open>C9.\<close>  \<open>classify_line\<close> is total: whatever the line, the position, the lines of the
  page and the state, no index of the call is out of range, and the call returns an
  element whose type is one of the seven element types.
\<close>

theorem classify_line_total:
  "\<exists>el st'. classify_line st line position lines = Inr (el, st') \<and> etype el \<in> set element_types"
proof -
  obtain h c d where
    "(if strip line \<noteq> []
      then is_specific_hyphenated_continuation (strip line) position lines else Inr False) = Inr h"
    "is_character_name (strip line) (len line - len (lstrip line)) position lines = Inr c"
    "(if 0 < position then is_in_continuation_dialogue_block position lines
      else Inr False) = Inr d"
    by (rule classify_line_calls)
  then show ?thesis
    unfolding classify_line_def Let_def emit_def element_types_def
    by (simp only: sum.case) simp
qed

theorem classify_line_total_witness:
  "\<exists>el st'. classify_line init_state (py ''(22)'') 7 [] = Inr (el, st')
     \<and> etype el \<in> set element_types"
  by (rule classify_line_total)

text \<open>
  \<^bold>\<open>C3.\<close>  When \<open>classify_line\<close> emits an element of type \<open>character\<close>, the state it
  leaves has \<open>in_dialogue_block\<close> set.
\<close>

theorem character_sets_dialogue_block:
  assumes "classify_line st line position lines = Inr (el, st')"
    and "etype el = ''character''"
  shows "in_dialogue_block st'"
proof -
  obtain h c d where
    "(if strip line \<noteq> []
      then is_specific_hyphenated_continuation (strip line) position lines else Inr False) = Inr h"
    "is_character_name (strip line) (len line - len (lstrip line)) position lines = Inr c"
    "(if 0 < position then is_in_continuation_dialogue_block position lines
      else Inr False) = Inr d"
    by (rule classify_line_calls)
  then have "\<forall>el st'. classify_line st line position lines = Inr (el, st')
      \<longrightarrow> etype el = ''character'' \<longrightarrow> in_dialogue_block st'"
    unfolding classify_line_def Let_def emit_def
    by (simp only: sum.case) simp
  with assms show ?thesis by blast
qed

theorem character_sets_dialogue_block_witness:
  "classify_line init_state (py ''A (MORE)'') 0 []
     = Inr (\<lparr>etype = ''character'', etext = py ''A (MORE)'', indent = 38, page = None\<rparr>,
            \<lparr>last_element = Some ''character'', in_dialogue_block = True\<rparr>)
   \<and> in_dialogue_block \<lparr>last_element = Some ''character'', in_dialogue_block = True\<rparr>"
proof -
  have e: "classify_line init_state (py ''A (MORE)'') 0 []
     = Inr (\<lparr>etype = ''character'', etext = py ''A (MORE)'', indent = 38, page = None\<rparr>,
            \<lparr>last_element = Some ''character'', in_dialogue_block = True\<rparr>)"
    by (simp only: ev ev_cls cong: if_weak_cong option.case_cong_weak list.case_cong_weak sum.case_cong_weak)
  from character_sets_dialogue_block [OF e] e show ?thesis by simp
qed

text \<open>
  \<^bold>\<open>C10.\<close>  After every call of \<open>classify_line\<close> the state's \<open>last_element\<close> is the type
  of the element the call returned.
\<close>

theorem last_element_is_emitted_type:
  assumes "classify_line st line position lines = Inr (el, st')"
  shows "last_element st' = Some (etype el)"
proof -
  obtain h c d where
    "(if strip line \<noteq> []
      then is_specific_hyphenated_continuation (strip line) position lines else Inr False) = Inr h"
    "is_character_name (strip line) (len line - len (lstrip line)) position lines = Inr c"
    "(if 0 < position then is_in_continuation_dialogue_block position lines
      else Inr False) = Inr d"
    by (rule classify_line_calls)
  then have "\<forall>el st'. classify_line st line position lines = Inr (el, st')
      \<longrightarrow> last_element st' = Some (etype el)"
    unfolding classify_line_def Let_def emit_def
    by (simp only: sum.case) simp
  with assms show ?thesis by blast
qed

theorem last_element_is_emitted_type_witness:
  "classify_line init_state (py ''CUT TO:'') 0 []
     = Inr (\<lparr>etype = ''transition'', etext = py ''CUT TO:'', indent = 55, page = None\<rparr>,
            \<lparr>last_element = Some ''transition'', in_dialogue_block = False\<rparr>)
   \<and> last_element \<lparr>last_element = Some ''transition'', in_dialogue_block = False\<rparr>
       = Some ''transition''"
proof -
  have e: "classify_line init_state (py ''CUT TO:'') 0 []
     = Inr (\<lparr>etype = ''transition'', etext = py ''CUT TO:'', indent = 55, page = None\<rparr>,
            \<lparr>last_element = Some ''transition'', in_dialogue_block = False\<rparr>)"
    by (simp only: ev ev_cls cong: if_weak_cong option.case_cong_weak list.case_cong_weak sum.case_cong_weak)
  from last_element_is_emitted_type [OF e] e show ?thesis by simp
qed

text \<open>
  \<^bold>\<open>C2.\<close>  When a line is classified inside a dialogue block (\<open>in_dialogue_block\<close> set,
  \<open>last_element\<close> one of character, parenthetical, dialogue), carries a strong action
  signal (\<open>_contains_action_indicators\<close> or \<open>_is_clearly_action\<close>) and comes out as
  \<open>action\<close>, the state after the call has \<open>in_dialogue_block\<close> cleared and
  \<open>last_element\<close> equal to \<open>action\<close>; this is the state the next line is classified in.
\<close>

theorem action_override_ends_block:
  assumes "classify_line st line position lines = Inr (el, st')"
    and "in_dialogue_block st"
    and "last_element st = Some t" and "t \<in> set dialogue_block_types"
    and "contains_action_indicators (strip line) \<or> is_clearly_action st (strip line)"
    and "etype el = ''action''"
  shows "\<not> in_dialogue_block st' \<and> last_element st' = Some ''action''"
proof -
  obtain h c d where
    "(if strip line \<noteq> []
      then is_specific_hyphenated_continuation (strip line) position lines else Inr False) = Inr h"
    "is_character_name (strip line) (len line - len (lstrip line)) position lines = Inr c"
    "(if 0 < position then is_in_continuation_dialogue_block position lines
      else Inr False) = Inr d"
    by (rule classify_line_calls)
  then have "\<forall>el st'. classify_line st line position lines = Inr (el, st')
      \<longrightarrow> etype el = ''action'' \<longrightarrow> \<not> in_dialogue_block st' \<and> last_element st' = Some ''action''"
    unfolding classify_line_def Let_def emit_def
    using assms(2-5) by (simp only: sum.case) simp
  with assms show ?thesis by blast
qed

theorem action_override_ends_block_witness:
  "classify_line \<lparr>last_element = Some ''dialogue'', in_dialogue_block = True\<rparr> (py ''We see.'') 0 []
     = Inr (\<lparr>etype = ''action'', etext = py ''We see.'', indent = 12, page = None\<rparr>,
            \<lparr>last_element = Some ''action'', in_dialogue_block = False\<rparr>)
   \<and> is_clearly_action \<lparr>last_element = Some ''dialogue'', in_dialogue_block = True\<rparr>
         (strip (py ''We see.''))
   \<and> \<not> in_dialogue_block \<lparr>last_element = Some ''action'', in_dialogue_block = False\<rparr>
   \<and> last_element \<lparr>last_element = Some ''action'', in_dialogue_block = False\<rparr> = Some ''action''"
proof -
  have e: "classify_line \<lparr>last_element = Some ''dialogue'', in_dialogue_block = True\<rparr>
       (py ''We see.'') 0 []
     = Inr (\<lparr>etype = ''action'', etext = py ''We see.'', indent = 12, page = None\<rparr>,
            \<lparr>last_element = Some ''action'', in_dialogue_block = False\<rparr>)"
    by (simp only: ev ev_cls cong: if_weak_cong option.case_cong_weak list.case_cong_weak sum.case_cong_weak)
  have a: "is_clearly_action \<lparr>last_element = Some ''dialogue'', in_dialogue_block = True\<rparr>
       (strip (py ''We see.''))"
    by (simp only: ev ev_cls cong: if_weak_cong option.case_cong_weak list.case_cong_weak sum.case_cong_weak)
  have t: "''dialogue'' \<in> set dialogue_block_types"
    by (simp add: dialogue_block_types_def)
  from action_override_ends_block [OF e _ _ t] a e show ?thesis by simp
qed

section \<open>Scene headings\<close>

text \<open>
  \<^bold>\<open>C6.\<close>  \<open>is_scene_heading\<close> upper-cases the line before it tests that the line is
  upper-case, so the test always passes and a lower-case line with a scene-opening
  template is a scene heading: \<open>int. kitchen - day\<close> is one.
\<close>

theorem lower_case_line_is_scene_heading:
  "is_scene_heading (py ''int. kitchen - day'')"
  by (simp only: ev ev_cls cong: if_weak_cong option.case_cong_weak list.case_cong_weak
      sum.case_cong_weak)

text \<open>The all-caps test of \<open>is_scene_heading\<close> holds of every line.\<close>

lemma upper_c_idem: "upper_c (upper_c c) = upper_c c"
  by (cases "is_lower_c c") (auto simp: upper_c_def is_lower_c_def)

lemma upper_idem: "upper (upper s) = upper s"
  by (simp add: upper_def upper_c_idem)

section \<open>Lines inside a dialogue block\<close>

lemma is_space_32: "is_space 32"
  by (simp add: is_space_def)

lemma lstrip_spaces: "lstrip (spaces n @ t) = lstrip t"
  by (induction n) (simp_all add: spaces_def is_space_32)

lemma strip_spaces: "strip (spaces n @ t) = strip t"
  by (simp add: strip_def lstrip_spaces)

lemma length_lstrip: "length (lstrip t) \<le> length t"
  by (induction t) simp_all

lemma leading_spaces_spaces:
  "len (spaces n @ t) - len (lstrip (spaces n @ t)) = n + (len t - len (lstrip t))"
proof -
  have "length (spaces n @ t) = n + length t"
    by (simp add: spaces_def)
  with length_lstrip [of t] show ?thesis
    by (simp add: len_length lstrip_spaces)
qed

text \<open>
  The rules before the dialogue/action step on the two lines of the scenario, whatever
  the indentation, the position and the other lines of the page.
\<close>

lemma believe_line:
  "strip (py ''I can't believe this is happening.'') = py ''I can't believe this is happening.''"
  "len (py ''I can't believe this is happening.'')
     - len (lstrip (py ''I can't believe this is happening.'')) = 0"
  "re_match False contd_head (py ''I can't believe this is happening.'') = False"
  "is_pre_scene_element (py ''I can't believe this is happening.'') = False"
  "is_scene_heading (py ''I can't believe this is happening.'') = False"
  "is_transition (py ''I can't believe this is happening.'') = False"
  "re_search True contd_pattern (py ''I can't believe this is happening.'') = False"
  "re_match False char_name_pattern (py ''I can't believe this is happening.'') = False"
  "startswith (py ''I can't believe this is happening.'') (py ''('') = False"
  "(py ''I can't believe this is happening.'' = []) = False"
  "get (py ''I can't believe this is happening.'') 0 = Inr 73"
  by (simp_all only: ev ev_cls cong: if_weak_cong option.case_cong_weak list.case_cong_weak
      sum.case_cong_weak)

lemma believe_line_progressive:
  "re_search True progressive_pattern (py ''I can't believe this is happening.'')"
  by (simp only: ev ev_cls cong: if_weak_cong option.case_cong_weak list.case_cong_weak
      sum.case_cong_weak)

lemma believe_line_action_indicators:
  "contains_action_indicators (py ''I can't believe this is happening.'')"
  by (simp only: ev ev_cls cong: if_weak_cong option.case_cong_weak list.case_cong_weak
      sum.case_cong_weak)

lemma dan_line:
  "strip (py ''Dan Bilzerian jet skis across the water.'')
     = py ''Dan Bilzerian jet skis across the water.''"
  "len (py ''Dan Bilzerian jet skis across the water.'')
     - len (lstrip (py ''Dan Bilzerian jet skis across the water.'')) = 0"
  "re_match False contd_head (py ''Dan Bilzerian jet skis across the water.'') = False"
  "is_pre_scene_element (py ''Dan Bilzerian jet skis across the water.'') = False"
  "is_scene_heading (py ''Dan Bilzerian jet skis across the water.'') = False"
  "is_transition (py ''Dan Bilzerian jet skis across the water.'') = False"
  "re_search True contd_pattern (py ''Dan Bilzerian jet skis across the water.'') = False"
  "re_match False char_name_pattern (py ''Dan Bilzerian jet skis across the water.'') = False"
  "startswith (py ''Dan Bilzerian jet skis across the water.'') (py ''('') = False"
  "(py ''Dan Bilzerian jet skis across the water.'' = []) = False"
  "get (py ''Dan Bilzerian jet skis across the water.'') 0 = Inr 68"
  by (simp_all only: ev ev_cls cong: if_weak_cong option.case_cong_weak list.case_cong_weak
      sum.case_cong_weak)

lemma dan_line_action_indicators:
  "contains_action_indicators (py ''Dan Bilzerian jet skis across the water.'')"
  by (simp only: ev ev_cls cong: if_weak_cong option.case_cong_weak list.case_cong_weak
      sum.case_cong_weak)

text \<open>
  A line whose text fails the rules before the dialogue/action step and has an action
  indicator comes out as \<open>action\<close> inside a dialogue block, and ends the block.
\<close>

lemma action_indicator_line_is_action:
  assumes "strip body = body"
    and "len body - len (lstrip body) = 0"
    and "re_match False contd_head body = False"
    and "is_pre_scene_element body = False"
    and "is_scene_heading body = False"
    and "is_transition body = False"
    and "re_search True contd_pattern body = False"
    and "re_match False char_name_pattern body = False"
    and "startswith body (py ''('') = False"
    and "(body = []) = False"
    and "get body 0 = Inr c"
    and "contains_action_indicators body"
    and "in_dialogue_block st" and "last_element st = Some t" and "t \<in> set dialogue_block_types"
  shows "classify_line st (spaces n @ body) position lines
     = Inr (\<lparr>etype = ''action'', etext = body, indent = 12, page = None\<rparr>,
            st\<lparr>in_dialogue_block := False, last_element := Some ''action''\<rparr>)"
proof -
  have s: "strip (spaces n @ body) = body"
    using strip_spaces assms(1) by simp
  have l: "len (spaces n @ body) - len (lstrip (spaces n @ body)) = n"
    using leading_spaces_spaces [of n body] assms(2) by simp
  have h: "is_specific_hyphenated_continuation body position lines = Inr False"
    unfolding is_specific_hyphenated_continuation_def using assms(12) by simp
  have c: "is_character_name body n position lines = Inr False"
    unfolding is_character_name_def using assms(7,8,10,11) by simp
  show ?thesis
    unfolding classify_line_def Let_def emit_def
    using assms(3-6,9,10,12-15) by (simp add: s l h c)
qed

text \<open>
  The first line of the scenario of C5: \<open>Dan Bilzerian jet skis across the water.\<close> is
  an action inside a dialogue block.
\<close>

lemma dan_line_is_action:
  assumes "in_dialogue_block st" and "last_element st = Some t" and "t \<in> set dialogue_block_types"
  shows "classify_line st (spaces n @ py ''Dan Bilzerian jet skis across the water.'') position lines
     = Inr (\<lparr>etype = ''action'', etext = py ''Dan Bilzerian jet skis across the water.'',
              indent = 12, page = None\<rparr>,
            st\<lparr>in_dialogue_block := False, last_element := Some ''action''\<rparr>)"
  by (rule action_indicator_line_is_action [OF dan_line dan_line_action_indicators assms])

text \<open>
  \<^bold>\<open>C5.\<close>  The second line of the scenario: inside a dialogue block (\<open>in_dialogue_block\<close>
  set, \<open>last_element\<close> one of character, parenthetical, dialogue) the line
  \<open>I can't believe this is happening.\<close> is emitted as \<open>action\<close>, not as \<open>dialogue\<close>, at
  every indentation and position: \<open>is happening\<close> matches the progressive pattern of
  \<open>_contains_action_indicators\<close>, whose weight 0.88 passes the threshold 0.85, and the
  action override comes before the dialogue score.
\<close>

theorem believe_line_is_action:
  assumes "in_dialogue_block st" and "last_element st = Some t" and "t \<in> set dialogue_block_types"
  shows "classify_line st (spaces n @ py ''I can't believe this is happening.'') position lines
     = Inr (\<lparr>etype = ''action'', etext = py ''I can't believe this is happening.'',
              indent = 12, page = None\<rparr>,
            st\<lparr>in_dialogue_block := False, last_element := Some ''action''\<rparr>)"
  by (rule action_indicator_line_is_action [OF believe_line believe_line_action_indicators assms])

theorem believe_line_is_action_witness:
  "classify_line \<lparr>last_element = Some ''character'', in_dialogue_block = True\<rparr>
       (spaces 25 @ py ''I can't believe this is happening.'') 1 []
     = Inr (\<lparr>etype = ''action'', etext = py ''I can't believe this is happening.'',
              indent = 12, page = None\<rparr>,
            \<lparr>last_element = Some ''action'', in_dialogue_block = False\<rparr>)"
  using believe_line_is_action [of "\<lparr>last_element = Some ''character'', in_dialogue_block = True\<rparr>"
      "''character''" 25 1 "[]"]
  by (simp add: dialogue_block_types_def)

text \<open>The dialogue score of that line is 1.75, above every threshold of the dialogue test.\<close>

lemma believe_line_dialogue_score:
  "dialogue_score (py ''I can't believe this is happening.'') = 175"
  by (simp only: ev ev_cls cong: if_weak_cong option.case_cong_weak list.case_cong_weak
      sum.case_cong_weak)

text \<open>
  The test of the continuation call of \<open>classify_line\<close> as a truth value.
\<close>

lemma contd_call_value:
  assumes "(if 0 < position then is_in_continuation_dialogue_block position lines
            else Inr False) = Inr d"
  shows "d = (0 < position \<and> is_in_continuation_dialogue_block position lines = Inr True)"
  using assms by (cases "0 < position") auto

text \<open>
  \<^bold>\<open>C1.\<close>  A line that reaches the dialogue/action step inside a dialogue block and has
  no strong action signal is emitted as \<open>dialogue\<close> exactly when it is not empty, is
  not a basic action line, and either passes the dialogue test (indentation from 18 to
  35, no scene element, no definitive action pattern, and a score of at least 0.85, or
  at least 0.75 after a character, parenthetical or dialogue, or at least 0.60 after a
  character) or follows a character or dialogue element and lies in a CONT'D dialogue
  block or at an indentation from 18 to 35.
\<close>

theorem dialogue_at_disambiguation:
  assumes "classify_line st line position lines = Inr (el, st')"
    and "reaches_disambiguation st line position lines"
    and "\<not> strong_action_signal st line"
  shows "etype el = ''dialogue'' \<longleftrightarrow>
     strip line \<noteq> [] \<and> \<not> is_basic_action_line (strip line) \<and>
     ((18 \<le> len line - len (lstrip line) \<and> len line - len (lstrip line) \<le> 35
         \<and> \<not> is_scene_element (strip line) \<and> strip (lower (strip line)) \<noteq> []
         \<and> \<not> contains_definitive_action_patterns (strip line)
         \<and> score_passes st (dialogue_score (strip line)))
      \<or> ((last_element st = Some ''character'' \<or> last_element st = Some ''dialogue'')
          \<and> ((0 < position \<and> is_in_continuation_dialogue_block position lines = Inr True)
              \<or> (18 \<le> len line - len (lstrip line) \<and> len line - len (lstrip line) \<le> 35))))"
proof -
  obtain h c d where d:
    "(if 0 < position then is_in_continuation_dialogue_block position lines
      else Inr False) = Inr d"
    by (rule classify_line_calls [of line position lines])
  note dv = contd_call_value [OF d]
  from assms(2) have r:
    "(re_match False contd_head (strip line) \<and> re_search True contd_suffix (strip line)) = False"
    "(if strip line \<noteq> [] then is_specific_hyphenated_continuation (strip line) position lines
      else Inr False) = Inr False"
    "is_pre_scene_element (strip line) = False"
    "is_scene_heading (strip line) = False"
    "is_transition (strip line) = False"
    "is_character_name (strip line) (len line - len (lstrip line)) position lines = Inr False"
    "(startswith (strip line) (py ''('') \<and> endswith (strip line) (py '')'')) = False"
    "in_dialogue_block st"
    "(case last_element st of None \<Rightarrow> False | Some t \<Rightarrow> t \<in> set dialogue_block_types)"
    unfolding reaches_disambiguation_def Let_def by simp_all
  from assms(3) have a:
    "contains_action_indicators (strip line) = False"
    "is_clearly_action st (strip line) = False"
    unfolding strong_action_signal_def by simp_all
  have "\<forall>el st'. classify_line st line position lines = Inr (el, st') \<longrightarrow>
    (etype el = ''dialogue'' \<longleftrightarrow>
     strip line \<noteq> [] \<and> \<not> is_basic_action_line (strip line) \<and>
     ((18 \<le> len line - len (lstrip line) \<and> len line - len (lstrip line) \<le> 35
         \<and> \<not> is_scene_element (strip line) \<and> strip (lower (strip line)) \<noteq> []
         \<and> \<not> contains_definitive_action_patterns (strip line)
         \<and> score_passes st (dialogue_score (strip line)))
      \<or> ((last_element st = Some ''character'' \<or> last_element st = Some ''dialogue'')
          \<and> (d \<or> (18 \<le> len line - len (lstrip line) \<and> len line - len (lstrip line) \<le> 35)))))"
    unfolding classify_line_def Let_def emit_def is_likely_dialogue_def score_passes_def
    by (simp only: r a d sum.case simp_thms if_False if_True) (auto simp: not_less not_le)
  with assms(1) dv show ?thesis by blast
qed

theorem dialogue_at_disambiguation_witness:
  "classify_line \<lparr>last_element = Some ''character'', in_dialogue_block = True\<rparr>
       (spaces 25 @ py ''Yes.'') 0 []
     = Inr (\<lparr>etype = ''dialogue'', etext = py ''Yes.'', indent = 25, page = None\<rparr>,
            \<lparr>last_element = Some ''dialogue'', in_dialogue_block = True\<rparr>)
   \<and> reaches_disambiguation \<lparr>last_element = Some ''character'', in_dialogue_block = True\<rparr>
         (spaces 25 @ py ''Yes.'') 0 []
   \<and> \<not> strong_action_signal \<lparr>last_element = Some ''character'', in_dialogue_block = True\<rparr>
         (spaces 25 @ py ''Yes.'')
   \<and> strip (spaces 25 @ py ''Yes.'') \<noteq> []
   \<and> \<not> is_basic_action_line (strip (spaces 25 @ py ''Yes.''))"
proof -
  have e: "classify_line \<lparr>last_element = Some ''character'', in_dialogue_block = True\<rparr>
       (spaces 25 @ py ''Yes.'') 0 []
     = Inr (\<lparr>etype = ''dialogue'', etext = py ''Yes.'', indent = 25, page = None\<rparr>,
            \<lparr>last_element = Some ''dialogue'', in_dialogue_block = True\<rparr>)"
    by (simp only: ev ev_cls cong: if_weak_cong option.case_cong_weak list.case_cong_weak
        sum.case_cong_weak)
  have r: "reaches_disambiguation \<lparr>last_element = Some ''character'', in_dialogue_block = True\<rparr>
         (spaces 25 @ py ''Yes.'') 0 []"
    by (simp only: ev ev_cls reaches_disambiguation_def cong: if_weak_cong option.case_cong_weak list.case_cong_weak
        sum.case_cong_weak)
  have a: "\<not> strong_action_signal \<lparr>last_element = Some ''character'', in_dialogue_block = True\<rparr>
         (spaces 25 @ py ''Yes.'')"
    by (simp only: ev ev_cls strong_action_signal_def cong: if_weak_cong option.case_cong_weak list.case_cong_weak
        sum.case_cong_weak)
  from dialogue_at_disambiguation [OF e r a] e r a show ?thesis by simp
qed

text \<open>
  The claim as it is worded, with the score deciding alone, fails on the line
  \<open>Tomorrow.\<close> at indentation 25 after a character cue: the line reaches the step and
  has no action signal, its score is 0, and it is emitted as \<open>dialogue\<close> by the
  indentation fallback.
\<close>

theorem dialogue_without_score:
  "reaches_disambiguation \<lparr>last_element = Some ''character'', in_dialogue_block = True\<rparr>
         (spaces 25 @ py ''Tomorrow.'') 0 []
   \<and> \<not> strong_action_signal \<lparr>last_element = Some ''character'', in_dialogue_block = True\<rparr>
         (spaces 25 @ py ''Tomorrow.'')
   \<and> classify_line \<lparr>last_element = Some ''character'', in_dialogue_block = True\<rparr>
       (spaces 25 @ py ''Tomorrow.'') 0 []
     = Inr (\<lparr>etype = ''dialogue'', etext = py ''Tomorrow.'', indent = 25, page = None\<rparr>,
            \<lparr>last_element = Some ''dialogue'', in_dialogue_block = True\<rparr>)
   \<and> dialogue_score (strip (spaces 25 @ py ''Tomorrow.'')) = 0
   \<and> \<not> score_exceeds \<lparr>last_element = Some ''character'', in_dialogue_block = True\<rparr>
         (dialogue_score (strip (spaces 25 @ py ''Tomorrow.'')))"
proof -
  have r: "reaches_disambiguation \<lparr>last_element = Some ''character'', in_dialogue_block = True\<rparr>
         (spaces 25 @ py ''Tomorrow.'') 0 []"
    by (simp only: ev ev_cls reaches_disambiguation_def cong: if_weak_cong option.case_cong_weak list.case_cong_weak
        sum.case_cong_weak)
  have a: "\<not> strong_action_signal \<lparr>last_element = Some ''character'', in_dialogue_block = True\<rparr>
         (spaces 25 @ py ''Tomorrow.'')"
    by (simp only: ev ev_cls strong_action_signal_def cong: if_weak_cong option.case_cong_weak list.case_cong_weak
        sum.case_cong_weak)
  have e: "classify_line \<lparr>last_element = Some ''character'', in_dialogue_block = True\<rparr>
       (spaces 25 @ py ''Tomorrow.'') 0 []
     = Inr (\<lparr>etype = ''dialogue'', etext = py ''Tomorrow.'', indent = 25, page = None\<rparr>,
            \<lparr>last_element = Some ''dialogue'', in_dialogue_block = True\<rparr>)"
    by (simp only: ev ev_cls cong: if_weak_cong option.case_cong_weak list.case_cong_weak
        sum.case_cong_weak)
  have d: "dialogue_score (strip (spaces 25 @ py ''Tomorrow.'')) = 0"
    by (simp only: ev ev_cls cong: if_weak_cong option.case_cong_weak list.case_cong_weak
        sum.case_cong_weak)
  have x: "\<not> score_exceeds \<lparr>last_element = Some ''character'', in_dialogue_block = True\<rparr> 0"
    by (simp add: score_exceeds_def)
  from r a e d x show ?thesis by simp
qed

section \<open>Page numbers\<close>

text \<open>
  A repetition of a character test matches a run of characters that pass the test, when
  what follows the repetition matches the rest of the text.  The matcher is greedy and
  backtracks, so these lemmas show that there is a match, which is what \<open>re.match\<close>
  reports.
\<close>

lemma any_of_iff: "any_of P xs \<longleftrightarrow> (\<exists>x\<in>set xs. P x)"
  by (induction xs) auto

lemma rep_it_run:
  assumes "\<forall>c\<in>set d. ok c" and "length d \<le> e" and "\<forall>p' i'. k p' r i' cs \<noteq> None"
  shows "rep_it 0 e (step1 ok) k p (d @ r) i cs \<noteq> None"
  using assms
proof (induction d arbitrary: e p i)
  case Nil
  then show ?case by (cases e) (auto split: option.splits)
next
  case (Cons c d)
  then obtain e' where e: "e = Suc e'" by (cases e) auto
  with Cons.prems have "rep_it 0 e' (step1 ok) k (Some c) (d @ r) (i + 1) cs \<noteq> None"
    by (intro Cons.IH) auto
  with e Cons.prems(1) show ?case by (auto split: option.splits)
qed

lemma rep1_run:
  assumes "d \<noteq> []" and "\<forall>c\<in>set d. ok c" and "length d \<le> Suc e"
    and "\<forall>p' i'. k p' r i' cs \<noteq> None"
  shows "rep_it (Suc 0) e (step1 ok) k p (d @ r) i cs \<noteq> None"
proof -
  from assms(1) obtain c d' where d: "d = c # d'" by (cases d) auto
  with assms have "rep_it 0 e (step1 ok) k (Some c) (d' @ r) (i + 1) cs \<noteq> None"
    by (intro rep_it_run) auto
  with d assms(2) show ?thesis by simp
qed

lemma star_it_run:
  assumes "\<forall>c\<in>set d. ok c" and "length d \<le> length fuel" and "\<forall>p' i'. k p' r i' cs \<noteq> None"
  shows "star_it fuel (step1 ok) k p (d @ r) i cs \<noteq> None"
  using assms
proof (induction d arbitrary: fuel p i)
  case Nil
  then show ?case by (cases fuel) (auto split: option.splits)
next
  case (Cons c d)
  then obtain u fuel' where f: "fuel = u # fuel'" by (cases fuel) auto
  with Cons.prems have "star_it fuel' (step1 ok) k (Some c) (d @ r) (i + 1) cs \<noteq> None"
    by (intro Cons.IH) auto
  with f Cons.prems(1) show ?case by (auto split: option.splits)
qed

lemma star_run:
  assumes "\<forall>c\<in>set d. cls_ok ic neg rs c" and "\<forall>p' i'. k p' r i' cs \<noteq> None"
  shows "rxm ic ml (Star (Cls neg rs)) k p (d @ r) i cs \<noteq> None"
proof -
  have a: "rxm ic ml (Cls neg rs) = step1 (cls_ok ic neg rs)"
    by (simp add: fun_eq_iff)
  have "star_it (d @ r) (step1 (cls_ok ic neg rs)) k p (d @ r) i cs \<noteq> None"
    using assms by (intro star_it_run) simp_all
  with a show ?thesis by simp
qed

lemma plus_run:
  assumes "d \<noteq> []" and "\<forall>c\<in>set d. cls_ok ic neg rs c" and "\<forall>p' i'. k p' r i' cs \<noteq> None"
  shows "rxm ic ml (rplus (Cls neg rs)) k p (d @ r) i cs \<noteq> None"
proof -
  from assms(1) obtain c d' where d: "d = c # d'" by (cases d) auto
  have "rxm ic ml (Star (Cls neg rs)) k (Some c) (d' @ r) (i + 1) cs \<noteq> None"
    using assms(2,3) d by (intro star_run) simp_all
  with d assms(2) show ?thesis by (simp add: rplus_def)
qed

lemma digit_ok: "is_digit c \<Longrightarrow> cls_ok ic False r_d c"
  by (simp add: cls_ok_def is_digit_def r_d_def)

lemma space_ok: "is_space c \<Longrightarrow> cls_ok ic False r_s c"
  by (auto simp: cls_ok_def is_space_def r_s_def)

lemma digits_run:
  assumes "d \<noteq> []" and "\<forall>c\<in>set d. is_digit c" and "length d \<le> 4"
    and "\<forall>p' i'. k p' r i' cs \<noteq> None"
  shows "rxm ic ml (Rep 1 3 Dg) k p (d @ r) i cs \<noteq> None"
proof -
  have a: "rxm ic ml Dg = step1 (cls_ok ic False r_d)"
    by (simp add: fun_eq_iff Dg_def)
  have "rep_it (Suc 0) 3 (step1 (cls_ok ic False r_d)) k p (d @ r) i cs \<noteq> None"
    using assms by (intro rep1_run) (simp_all add: digit_ok)
  with a show ?thesis by simp
qed

lemma digits_plus:
  assumes "d \<noteq> []" and "\<forall>c\<in>set d. is_digit c" and "\<forall>p' i'. k p' r i' cs \<noteq> None"
  shows "rxm ic ml (rplus Dg) k p (d @ r) i cs \<noteq> None"
  unfolding Dg_def using assms by (intro plus_run) (simp_all add: digit_ok)

lemma spaces_star:
  assumes "\<forall>c\<in>set d. is_space c" and "\<forall>p' i'. k p' r i' cs \<noteq> None"
  shows "rxm ic ml (Star Sp) k p (d @ r) i cs \<noteq> None"
  unfolding Sp_def using assms by (intro star_run) (simp_all add: space_ok)

lemma page_no_digits:
  assumes "page_no n"
  shows "n \<noteq> []" and "\<forall>c\<in>set n. is_digit c" and "length n \<le> 4"
  using assms by (auto simp: page_no_def isdigit_def any_of_iff len_length)

text \<open>The five forms, each with the pattern of \<open>_is_page_number\<close> that matches it.\<close>

lemma rxm_Lit_eta: "rxm ic ml (Lit a) = step1 (lit_ok ic a)"
  by (simp add: fun_eq_iff)

lemma bare_matches:
  assumes "page_no n" and "k \<le> 2"
  shows "re_match True (seqs [Bol, Rep 1 3 Dg, Rep 0 2 (Ch CHR ''.''), Eol]) (n @ replicate k 46)"
proof -
  note n = page_no_digits [OF assms(1)]
  have "rep_it 0 2 (step1 (lit_ok True 46)) (rxm True False Eol accept) p'
          (replicate k 46 @ []) i' [] \<noteq> None" for p' i'
    using assms(2) by (intro rep_it_run) (simp_all add: lit_ok_def at_eol_def accept_def)
  then have "\<forall>p' i'. rxm True False (seqs [Rep 0 2 (Ch CHR ''.''), Eol]) accept p'
          (replicate k 46) i' [] \<noteq> None"
    by (simp add: Ch_def rxm_Lit_eta)
  then have "rxm True False (Rep 1 3 Dg) (rxm True False (seqs [Rep 0 2 (Ch CHR ''.''), Eol]) accept)
      None (n @ replicate k 46) 0 [] \<noteq> None"
    by (intro digits_run n)
  then show ?thesis
    by (simp add: re_match_def at_bol_def)
qed

lemma page_matches:
  assumes "page_no n"
  shows "re_match True (seqs [Bol, lit ''Page'', rplus Sp, rplus Dg]) (py ''Page '' @ n)"
proof -
  note n = page_no_digits [OF assms(1)]
  have "rxm True False (rplus Dg) accept p' (n @ []) i' [] \<noteq> None" for p' i'
    by (intro digits_plus n) (simp add: accept_def)
  then have a: "\<forall>p' i'. rxm True False (rplus Dg) accept p' n i' [] \<noteq> None"
    by simp
  have "rxm True False (rplus Sp) (rxm True False (rplus Dg) accept) p' ([32] @ n) i' [] \<noteq> None"
    for p' i'
    unfolding Sp_def by (intro plus_run a) (simp_all add: space_ok is_space_def)
  then have "rxm True False (seqs [lit ''Page'', rplus Sp, rplus Dg]) accept None
      (py ''Page '' @ n) 0 [] \<noteq> None"
    by (simp add: py_def lit_ok_def)
  then show ?thesis
    by (simp add: re_match_def at_bol_def)
qed

lemma slash_matches:
  assumes "page_no n" and "page_no m"
  shows "re_match True (seqs [Bol, Rep 1 3 Dg, Ch CHR ''/'', Rep 1 3 Dg, Eol]) (n @ py ''/'' @ m)"
proof -
  note n = page_no_digits [OF assms(1)]
  note m = page_no_digits [OF assms(2)]
  have "rxm True False (Rep 1 3 Dg) (rxm True False Eol accept) p' (m @ []) i' [] \<noteq> None" for p' i'
    by (intro digits_run m) (simp add: at_eol_def accept_def)
  then have "\<forall>p' i'. rxm True False (seqs [Ch CHR ''/'', Rep 1 3 Dg, Eol]) accept p'
      (47 # m) i' [] \<noteq> None"
    by (simp add: Ch_def lit_ok_def)
  then have "rxm True False (Rep 1 3 Dg)
      (rxm True False (seqs [Ch CHR ''/'', Rep 1 3 Dg, Eol]) accept) None (n @ 47 # m) 0 [] \<noteq> None"
    by (intro digits_run n)
  then show ?thesis
    by (simp add: re_match_def at_bol_def py_def)
qed

lemma dashes_matches:
  assumes "page_no n"
  shows "re_match True (seqs [Bol, Ch CHR ''-'', Star Sp, rplus Dg, Star Sp, Ch CHR ''-'', Eol])
     (py ''- '' @ n @ py '' -'')"
proof -
  note n = page_no_digits [OF assms(1)]
  have a: "\<forall>p' i'. rxm True False (seqs [Ch CHR ''-'', Eol]) accept p' [45] i' [] \<noteq> None"
    by (simp add: Ch_def lit_ok_def at_eol_def accept_def)
  have "rxm True False (Star Sp) (rxm True False (seqs [Ch CHR ''-'', Eol]) accept) p'
      ([32] @ [45]) i' [] \<noteq> None" for p' i'
    by (intro spaces_star a) (simp add: is_space_def)
  then have b: "\<forall>p' i'. rxm True False (seqs [Star Sp, Ch CHR ''-'', Eol]) accept p'
      [32, 45] i' [] \<noteq> None"
    by simp
  have "rxm True False (rplus Dg) (rxm True False (seqs [Star Sp, Ch CHR ''-'', Eol]) accept) p'
      (n @ [32, 45]) i' [] \<noteq> None" for p' i'
    by (intro digits_plus n b)
  then have c: "\<forall>p' i'. rxm True False (seqs [rplus Dg, Star Sp, Ch CHR ''-'', Eol]) accept p'
      (n @ [32, 45]) i' [] \<noteq> None"
    by simp
  have "rxm True False (Star Sp)
      (rxm True False (seqs [rplus Dg, Star Sp, Ch CHR ''-'', Eol]) accept) p'
      ([32] @ n @ [32, 45]) i' [] \<noteq> None" for p' i'
    by (intro spaces_star c) (simp add: is_space_def)
  then have "rxm True False (seqs [Ch CHR ''-'', Star Sp, rplus Dg, Star Sp, Ch CHR ''-'', Eol])
      accept None (45 # 32 # n @ [32, 45]) 0 [] \<noteq> None"
    by (simp add: Ch_def lit_ok_def)
  then show ?thesis
    by (simp add: re_match_def at_bol_def py_def)
qed

lemma parens_matches:
  assumes "page_no n"
  shows "re_match True (seqs [Bol, Ch CHR ''('', rplus Dg, Ch CHR '')'', Eol])
     (py ''('' @ n @ py '')'')"
proof -
  note n = page_no_digits [OF assms(1)]
  have a: "\<forall>p' i'. rxm True False (seqs [Ch CHR '')'', Eol]) accept p' [41] i' [] \<noteq> None"
    by (simp add: Ch_def lit_ok_def at_eol_def accept_def)
  have "rxm True False (rplus Dg) (rxm True False (seqs [Ch CHR '')'', Eol]) accept) p'
      (n @ [41]) i' [] \<noteq> None" for p' i'
    by (intro digits_plus n a)
  then have "rxm True False (seqs [Ch CHR ''('', rplus Dg, Ch CHR '')'', Eol])
      accept None (40 # n @ [41]) 0 [] \<noteq> None"
    by (simp add: Ch_def lit_ok_def)
  then show ?thesis
    by (simp add: re_match_def at_bol_def py_def)
qed

lemma form_matches:
  assumes "form_ok f"
  shows "any_of (\<lambda>pattern. re_match True pattern (form_text f)) page_patterns"
proof (cases f)
  case (Bare n k)
  with assms bare_matches [of n k] show ?thesis by (simp add: page_patterns_def)
next
  case (PageN n)
  with assms page_matches [of n] show ?thesis by (simp add: page_patterns_def)
next
  case (Slash n m)
  with assms slash_matches [of n m] show ?thesis by (simp add: page_patterns_def)
next
  case (Dashes n)
  with assms dashes_matches [of n] show ?thesis by (simp add: page_patterns_def)
next
  case (Parens n)
  with assms parens_matches [of n] show ?thesis by (simp add: page_patterns_def)
qed

lemma form_text_not_empty: "form_ok f \<Longrightarrow> form_text f \<noteq> []"
  by (cases f) (auto simp: page_no_def isdigit_def py_def)

lemma form_is_page_number:
  assumes "form_ok f" and "strip raw_line = form_text f"
  shows "is_page_number raw_line"
  using form_matches [OF assms(1)] form_text_not_empty [OF assms(1)] assms(2)
  by (simp add: is_page_number_def)

text \<open>The loop over the lines of a page, on a list of lines in two parts.\<close>

lemma parse_lines_append:
  "parse_lines fmt pnum lns ps i (xs @ ys)
     = (case parse_lines fmt pnum lns ps i xs of
          Inl e \<Rightarrow> Inl e
        | Inr ps' \<Rightarrow> parse_lines fmt pnum lns ps' (i + length xs) ys)"
  by (induction xs arbitrary: ps i) (auto split: sum.splits)

text \<open>
  \<^bold>\<open>C8.\<close>  A line whose stripped text has one of the page-number forms is accepted by
  \<open>_is_page_number\<close> and gives no element: the loop of \<open>_parse_sequential_content\<close>
  passes over it before the repair and the classifier see it, and leaves the scenes, the
  elements of the current scene and the state of the classifier as they are.  Wherever
  the line stands in a page, the page is parsed as its lines before and behind that line
  are, so nothing of the line reaches the content of a scene.
\<close>

theorem page_number_line_is_dropped:
  assumes "form_ok f" and "strip raw_line = form_text f"
  shows "is_page_number raw_line
     \<and> classify_raw pnum lns st i raw_line = Inr (None, st)
     \<and> parse_line fmt pnum lns ps i raw_line = Inr ps
     \<and> parse_lines fmt pnum lns ps i (before @ raw_line # rest)
         = (case parse_lines fmt pnum lns ps i before of
              Inl e \<Rightarrow> Inl e
            | Inr ps' \<Rightarrow> parse_lines fmt pnum lns ps' (i + length before + 1) rest)"
proof -
  have p: "is_page_number raw_line"
    by (rule form_is_page_number [OF assms])
  then have "parse_line fmt pnum lns ps' j raw_line = Inr ps'" for ps' :: "'a pstate" and j
    by (simp add: parse_line_def)
  then show ?thesis
    using p by (simp add: classify_raw_def parse_lines_append split: sum.splits)
qed

theorem page_number_line_is_dropped_witness:
  "form_ok (Bare (py ''42'') 1) \<and> strip (py ''42.'') = form_text (Bare (py ''42'') 1)
   \<and> is_page_number (py ''42.'')
   \<and> classify_raw 1 [py ''42.'', py ''Bob walks in.''] init_state 0 (py ''42.'')
       = Inr (None, init_state)
   \<and> parse_lines (format_screenplay_content (\<lambda>t w. [t])) 1 [py ''42.'', py ''Bob walks in.'']
         \<lparr>scenes = [], current_scene_heading = None, current_scene_elements = [],
          scene_characters = {}, current_scene_page = 1, classifier = init_state\<rparr>
         0 ([] @ py ''42.'' # [py ''Bob walks in.''])
       = parse_lines (format_screenplay_content (\<lambda>t w. [t])) 1 [py ''42.'', py ''Bob walks in.'']
         \<lparr>scenes = [], current_scene_heading = None, current_scene_elements = [],
          scene_characters = {}, current_scene_page = 1, classifier = init_state\<rparr>
         1 [py ''Bob walks in.'']"
proof -
  have a: "form_ok (Bare (py ''42'') 1)"
    by (simp only: ev ev_parse cong: if_weak_cong option.case_cong_weak list.case_cong_weak
      sum.case_cong_weak)
  have b: "strip (py ''42.'') = form_text (Bare (py ''42'') 1)"
    by (simp only: ev ev_parse cong: if_weak_cong option.case_cong_weak list.case_cong_weak
      sum.case_cong_weak)
  from page_number_line_is_dropped [OF a b,
      where fmt = "format_screenplay_content (\<lambda>t w. [t])" and pnum = 1
        and lns = "[py ''42.'', py ''Bob walks in.'']" and i = 0 and st = init_state
        and before = "[]" and rest = "[py ''Bob walks in.'']"
        and ps = "\<lparr>scenes = [], current_scene_heading = None, current_scene_elements = [],
          scene_characters = {}, current_scene_page = 1, classifier = init_state\<rparr>"]
    a b
  show ?thesis by simp
qed

text \<open>
  The scenario of the specification: of the page with the lines \<open>42.\<close> and
  \<open>Bob walks in.\<close> only the second line gives an element, and \<open>42.\<close> does not occur in
  the content of the scene.
\<close>

lemma page_number_scenario:
  "classified_elements [\<lparr>page_num = 1, page_lines = [py ''42.'', py ''Bob walks in.'']\<rparr>]
     = Inr [\<lparr>etype = ''action'', etext = py ''Bob walks in.'', indent = 12, page = Some 1\<rparr>]
   \<and> parse_sequential_content (\<lambda>t w. [t])
       [\<lparr>page_num = 1, page_lines = [py ''42.'', py ''Bob walks in.'']\<rparr>]
     = Inr [\<lparr>heading = [], content = spaces 12 @ py ''Bob walks in.'', characters = {},
              page_start = 1, page_end = 1\<rparr>]
   \<and> \<not> contains_str (spaces 12 @ py ''Bob walks in.'') (py ''42.'')"
proof -
  have a: "classified_elements [\<lparr>page_num = 1, page_lines = [py ''42.'', py ''Bob walks in.'']\<rparr>]
     = Inr [\<lparr>etype = ''action'', etext = py ''Bob walks in.'', indent = 12, page = Some 1\<rparr>]"
    by (simp only: ev ev_cls ev_parse cong: if_weak_cong option.case_cong_weak
      list.case_cong_weak sum.case_cong_weak)
  have b: "parse_sequential_content (\<lambda>t w. [t])
       [\<lparr>page_num = 1, page_lines = [py ''42.'', py ''Bob walks in.'']\<rparr>]
     = Inr [\<lparr>heading = [], content = spaces 12 @ py ''Bob walks in.'', characters = {},
              page_start = 1, page_end = 1\<rparr>]"
    by (simp only: ev ev_cls ev_parse cong: if_weak_cong option.case_cong_weak
      list.case_cong_weak sum.case_cong_weak)
  have c: "\<not> contains_str (spaces 12 @ py ''Bob walks in.'') (py ''42.'')"
    by (simp only: ev cong: if_weak_cong option.case_cong_weak list.case_cong_weak
      sum.case_cong_weak)
  from a b c show ?thesis by simp
qed

section \<open>Scenes and elements\<close>















section \<open>Artifact repair\<close>

text \<open>
  \<^bold>\<open>C4.\<close>  The repair is not idempotent.  Its substitution of \<open>'\<close> for \<open>''\<close>, which is
  to fix doubled quotes, turns four apostrophes (code point 39) into two, so a doubled
  quote is left, and a second run turns the two into one.  In the same way its
  substitution for doubled parentheses turns \<open>((((x))))\<close> into \<open>(((x)))\<close> and a second
  run turns that into \<open>((x))\<close>.
\<close>

theorem clean_twice_differs:
  "clean_extraction_artifacts [39, 39, 39, 39] = [39, 39]
   \<and> clean_extraction_artifacts [39, 39] = [39]
   \<and> clean_extraction_artifacts (clean_extraction_artifacts [39, 39, 39, 39])
       \<noteq> clean_extraction_artifacts [39, 39, 39, 39]
   \<and> clean_extraction_artifacts (py ''((((x))))'') = py ''(((x)))''
   \<and> clean_extraction_artifacts (py ''(((x)))'') = py ''((x))''
   \<and> clean_extraction_artifacts (clean_extraction_artifacts (py ''((((x))))''))
       \<noteq> clean_extraction_artifacts (py ''((((x))))'')"
proof -
  have a: "clean_extraction_artifacts [39, 39, 39, 39] = [39, 39]"
    by (simp only: ev ev_parse cong: if_weak_cong option.case_cong_weak
      list.case_cong_weak sum.case_cong_weak)
  have b: "clean_extraction_artifacts [39, 39] = [39]"
    by (simp only: ev ev_parse cong: if_weak_cong option.case_cong_weak
      list.case_cong_weak sum.case_cong_weak)
  have c: "clean_extraction_artifacts (py ''((((x))))'') = py ''(((x)))''"
    by (simp only: ev ev_parse cong: if_weak_cong option.case_cong_weak
      list.case_cong_weak sum.case_cong_weak)
  have d: "clean_extraction_artifacts (py ''(((x)))'') = py ''((x))''"
    by (simp only: ev ev_parse cong: if_weak_cong option.case_cong_weak
      list.case_cong_weak sum.case_cong_weak)
  have e: "py ''((x))'' \<noteq> py ''(((x)))''"
    by (simp add: py_def)
  show ?thesis by (simp add: a b c d e)
qed

end
